theory Spec2Isabelle
  imports Main "HOL-Library.Word" "HOL-Library.Sublist"
begin

section \<open>JavaScript strings\<close>

text \<open>
  A JavaScript string is a sequence of UTF-16 code units.  String literals of the
  source that are plain ASCII are written with \<open>js\<close>; other code units are given by
  their number.
\<close>

type_synonym jchar = "16 word"
type_synonym jstring = "jchar list"

definition js :: "string \<Rightarrow> jstring" where
  "js s = map of_char s"

text \<open>
  The code points that \<^verbatim>\<open>String.prototype.trim\<close> strips and that the regular
  expression class \<^verbatim>\<open>\s\<close> matches: ECMAScript's WhiteSpace and LineTerminator.
\<close>

definition isWhiteSpace :: "jchar \<Rightarrow> bool" where
  "isWhiteSpace c \<longleftrightarrow>
     (9 \<le> c \<and> c \<le> 13) \<or> c = 32 \<or> c = 160 \<or> c = 0x1680 \<or>
     (0x2000 \<le> c \<and> c \<le> 0x200A) \<or> c = 0x2028 \<or> c = 0x2029 \<or>
     c = 0x202F \<or> c = 0x205F \<or> c = 0x3000 \<or> c = 0xFEFF"

text \<open>\<^verbatim>\<open>s.trim()\<close>\<close>

definition trim :: "jstring \<Rightarrow> jstring" where
  "trim s = rev (dropWhile isWhiteSpace (rev (dropWhile isWhiteSpace s)))"

text \<open>\<^verbatim>\<open>s.replace(/\s+/g, r)\<close>: every maximal run of white space becomes \<open>r\<close>.\<close>

function replaceWsRuns :: "jstring \<Rightarrow> jstring \<Rightarrow> jstring" where
  "replaceWsRuns r [] = []"
| "replaceWsRuns r (c # cs) =
     (if isWhiteSpace c then r @ replaceWsRuns r (dropWhile isWhiteSpace cs)
      else c # replaceWsRuns r cs)"
  by pat_completeness auto
termination
  by (relation "measure (\<lambda>(r, s). length s)")
     (auto simp: less_Suc_eq_le length_dropWhile_le)

text \<open>\<^verbatim>\<open>s.replace(/x/g, r)\<close> for a single code unit \<open>x\<close>.\<close>

definition replaceAll :: "jchar \<Rightarrow> jstring \<Rightarrow> jstring \<Rightarrow> jstring" where
  "replaceAll x r s = concat (map (\<lambda>c. if c = x then r else [c]) s)"

text \<open>\<^verbatim>\<open>s.includes(t)\<close>\<close>

definition includes_str :: "jstring \<Rightarrow> jstring \<Rightarrow> bool" where
  "includes_str s t = sublist t s"

text \<open>\<^verbatim>\<open>parts.join(sep)\<close> on an array of strings.\<close>

fun join :: "jstring \<Rightarrow> jstring list \<Rightarrow> jstring" where
  "join sep [] = []"
| "join sep [x] = x"
| "join sep (x # y # ys) = x @ sep @ join sep (y # ys)"

text \<open>\<^verbatim>\<open>a || b\<close> on strings: the empty string is falsy.\<close>

definition orElse :: "jstring \<Rightarrow> jstring \<Rightarrow> jstring" where
  "orElse a b = (if a \<noteq> [] then a else b)"

text \<open>Does the string start or end with white space; does it hold two white-space
  code units in a row.\<close>

definition edgeWs :: "jstring \<Rightarrow> bool" where
  "edgeWs s \<longleftrightarrow> s \<noteq> [] \<and> (isWhiteSpace (hd s) \<or> isWhiteSpace (last s))"

fun hasWsRun :: "jstring \<Rightarrow> bool" where
  "hasWsRun (c # d # cs) \<longleftrightarrow> (isWhiteSpace c \<and> isWhiteSpace d) \<or> hasWsRun (d # cs)"
| "hasWsRun _ \<longleftrightarrow> False"

section \<open>JavaScript values\<close>

text \<open>
  The values the scrapers build and the report functions read.  An object is the list of
  its own properties in insertion order (the order of \<^verbatim>\<open>Object.keys\<close> for the
  non-numeric keys used here); numbers are the integers.
\<close>

datatype jsval =
    JUndefined
  | JNull
  | JBool bool
  | JNum int
  | JStr jstring
  | JArr "jsval list"
  | JObj "(jstring \<times> jsval) list"

type_synonym jsobject = "(jstring \<times> jsval) list"

text \<open>Truthiness, as \<^verbatim>\<open>!v\<close>, \<^verbatim>\<open>a || b\<close> and \<^verbatim>\<open>if (v)\<close> see it.\<close>

fun truthy :: "jsval \<Rightarrow> bool" where
  "truthy JUndefined = False"
| "truthy JNull = False"
| "truthy (JBool b) = b"
| "truthy (JNum n) = (n \<noteq> 0)"
| "truthy (JStr s) = (s \<noteq> [])"
| "truthy (JArr vs) = True"
| "truthy (JObj kvs) = True"

text \<open>\<^verbatim>\<open>Array.isArray(v) && v.length === 0\<close>\<close>

fun isEmptyArray :: "jsval \<Rightarrow> bool" where
  "isEmptyArray (JArr vs) = (length vs = 0)"
| "isEmptyArray _ = False"

text \<open>\<^verbatim>\<open>obj[key]\<close>, \<^verbatim>\<open>delete obj[key]\<close>, \<^verbatim>\<open>obj[key] = v\<close> and
  \<^verbatim>\<open>Object.keys(obj)\<close>.\<close>

definition obj_get :: "jsobject \<Rightarrow> jstring \<Rightarrow> jsval" where
  "obj_get obj key = (case map_of obj key of None \<Rightarrow> JUndefined | Some v \<Rightarrow> v)"

definition obj_delete :: "jsobject \<Rightarrow> jstring \<Rightarrow> jsobject" where
  "obj_delete obj key = filter (\<lambda>kv. fst kv \<noteq> key) obj"

definition obj_set :: "jsobject \<Rightarrow> jstring \<Rightarrow> jsval \<Rightarrow> jsobject" where
  "obj_set obj key v =
     (if key \<in> set (map fst obj) then map (\<lambda>kv. if fst kv = key then (key, v) else kv) obj
      else obj @ [(key, v)])"

definition obj_keys :: "jsobject \<Rightarrow> jstring list" where
  "obj_keys obj = map fst obj"

text \<open>
  The exceptions that the embedded code raises by itself are all of one kind: a property
  of \<^verbatim>\<open>null\<close> or \<^verbatim>\<open>undefined\<close> is read, or something that is not a function is
  called.  A function that can raise returns a sum, \<open>Inl\<close> for the exception.
\<close>

datatype jsexn = TypeError

section \<open>The cheerio document interface\<close>

text \<open>
  The scrapers see a page only through cheerio.  A selection is the list of its elements
  in document order; the library's operations are the fields of the record below, each
  named after the method it stands for.  \<open>root_select\<close> is \<^verbatim>\<open>$(selector)\<close>, the call
  of the function that \<^verbatim>\<open>cheerio.load\<close> returns.  The other fields are methods of a
  selection.  The function \<^verbatim>\<open>$\<close> itself has none of them: \<^verbatim>\<open>$.find\<close> is
  \<^verbatim>\<open>undefined\<close>.
\<close>

record 'e cheerio =
  root_select :: "string \<Rightarrow> 'e list"
  sel_find :: "'e list \<Rightarrow> string \<Rightarrow> 'e list"
  sel_prev :: "'e list \<Rightarrow> string \<Rightarrow> 'e list"
  sel_closest :: "'e list \<Rightarrow> string \<Rightarrow> 'e list"
  sel_parent :: "'e list \<Rightarrow> 'e list"
  sel_text :: "'e list \<Rightarrow> jstring"
  sel_attr :: "'e list \<Rightarrow> string \<Rightarrow> jstring option"
  sel_hasClass :: "'e list \<Rightarrow> string \<Rightarrow> bool"

text \<open>\<^verbatim>\<open>selection.first()\<close> and \<^verbatim>\<open>selection.last()\<close>\<close>

definition first :: "'e list \<Rightarrow> 'e list" where
  "first es = take 1 es"

definition last_sel :: "'e list \<Rightarrow> 'e list" where
  "last_sel es = (if es = [] then [] else [last es])"

section \<open>Fallback selectors (enhanced-scraper.js)\<close>

text \<open>
  \<^verbatim>\<open>const element = context || $; element.find(selector)\<close>.  The context is a
  selection, which is an object and so truthy even when it is empty; \<open>None\<close> stands for
  the default \<^verbatim>\<open>null\<close>.  With a context the call is the selection's \<^verbatim>\<open>find\<close>.
  Without one \<^verbatim>\<open>element\<close> is \<^verbatim>\<open>$\<close>, whose \<^verbatim>\<open>find\<close> is undefined, and calling it
  raises a TypeError.
\<close>

definition elementFind :: "'e cheerio \<Rightarrow> 'e list option \<Rightarrow> string \<Rightarrow> jsexn + 'e list" where
  "elementFind doc context selector =
     (case context of None \<Rightarrow> Inl TypeError
      | Some el \<Rightarrow> Inr (sel_find doc el selector))"

text \<open>The message of that TypeError in Node, as \<^verbatim>\<open>error.message\<close> gives it.\<close>

definition findTypeErrorMessage :: jstring where
  "findTypeErrorMessage = js ''element.find is not a function''"

text \<open>The \<^verbatim>\<open>for (const selector of selectors)\<close> loop; \<open>Inr None\<close> when it falls
  through.\<close>

fun fallbackLoop :: "'e cheerio \<Rightarrow> 'e list option \<Rightarrow> string list \<Rightarrow> jsexn + 'e list option" where
  "fallbackLoop doc context [] = Inr None"
| "fallbackLoop doc context (selector # rest) =
     (case elementFind doc context selector of
        Inl e \<Rightarrow> Inl e
      | Inr found \<Rightarrow>
          (let result = first found
           in if length result > 0 then Inr (Some result) else fallbackLoop doc context rest))"

text \<open>
  After the loop the source returns \<^verbatim>\<open>element.find(selectors[0])\<close>.  With an empty
  selector list \<^verbatim>\<open>selectors[0]\<close> is undefined: a selection's find then gives the empty
  selection, and without a context the call raises as before.
\<close>

definition extractWithFallbackSelectors ::
  "'e cheerio \<Rightarrow> string list \<Rightarrow> 'e list option \<Rightarrow> jsexn + 'e list" where
  "extractWithFallbackSelectors doc selectors context =
     (case fallbackLoop doc context selectors of
        Inl e \<Rightarrow> Inl e
      | Inr (Some result) \<Rightarrow> Inr result
      | Inr None \<Rightarrow>
          (case selectors of
             [] \<Rightarrow> (case context of None \<Rightarrow> Inl TypeError | Some el \<Rightarrow> Inr [])
           | s0 # _ \<Rightarrow> elementFind doc context s0))"

section \<open>Sport descriptors and text fields (enhanced-scraper.js)\<close>

record sport =
  sport_name :: jstring
  urlPath :: jstring

text \<open>\<^verbatim>\<open>selection.text().trim()\<close>, the text extraction nearly every field uses.\<close>

definition textTrim :: "'e cheerio \<Rightarrow> 'e list \<Rightarrow> jstring" where
  "textTrim doc es = trim (sel_text doc es)"

text \<open>\<^verbatim>\<open>selection.attr(a) || ''\<close>\<close>

definition attrOrEmpty :: "'e cheerio \<Rightarrow> 'e list \<Rightarrow> string \<Rightarrow> jstring" where
  "attrOrEmpty doc es a = (case sel_attr doc es a of None \<Rightarrow> [] | Some v \<Rightarrow> orElse v [])"

text \<open>
  The \<open>title\<close> and \<open>description\<close> fields of \<open>sportInfo\<close> in \<open>scrapeSportPage\<close>.
  The title is the only use of \<open>extractWithFallbackSelectors\<close> in the program, and it
  passes no context.
\<close>

definition sportInfo_title :: "'e cheerio \<Rightarrow> sport \<Rightarrow> jsexn + jstring" where
  "sportInfo_title doc sp =
     (case extractWithFallbackSelectors doc [''h1'', ''.entry-title'', ''.page-title''] None of
        Inl e \<Rightarrow> Inl e
      | Inr found \<Rightarrow> Inr (orElse (textTrim doc (first found)) (sport_name sp)))"

definition sportInfo_description :: "'e cheerio \<Rightarrow> jstring" where
  "sportInfo_description doc =
     textTrim doc (first (root_select doc ''.description, .intro, .summary''))"

text \<open>One announcement of \<open>scrapeMainPage\<close>: its two fields, and the object.\<close>

definition announcement_title :: "'e cheerio \<Rightarrow> 'e \<Rightarrow> jstring" where
  "announcement_title doc element =
     textTrim doc (first (sel_find doc [element] ''h2, h3, .title, strong''))"

definition announcement_content :: "'e cheerio \<Rightarrow> 'e \<Rightarrow> jstring" where
  "announcement_content doc element = replaceWsRuns (js '' '') (textTrim doc [element])"

definition announcement :: "'e cheerio \<Rightarrow> 'e \<Rightarrow> jsobject" where
  "announcement doc element =
     [(js ''title'', JStr (announcement_title doc element)),
      (js ''content'', JStr (announcement_content doc element))]"

text \<open>The \<open>each\<close> loop over the announcement blocks, pushing those with a title or
  a content.\<close>

definition announcements :: "'e cheerio \<Rightarrow> jsval list" where
  "announcements doc =
     map JObj (filter (\<lambda>a. truthy (obj_get a (js ''title'')) \<or> truthy (obj_get a (js ''content'')))
       (map (announcement doc) (root_select doc ''.announcement, .notice, .alert, .important'')))"

section \<open>The sport page buckets (enhanced-scraper.js, scrapeSportPage)\<close>

text \<open>The decimal text of an array index, as a template literal writes it.\<close>

function showNat :: "nat \<Rightarrow> jstring" where
  "showNat n = (if n < 10 then [of_nat (48 + n)]
                else showNat (n div 10) @ [of_nat (48 + n mod 10)])"
  by pat_completeness auto
termination
  by (relation "measure id") auto

declare showNat.simps [simp del]

text \<open>
  An \<^verbatim>\<open>each\<close> loop whose body pushes at most one item: the body is a function to
  \<open>option\<close>, \<open>Some\<close> for a push, and \<open>collect\<close> is the array after the loop.
  \<open>indexed\<close> pairs each element with the index the callback receives.
\<close>

fun collect :: "('a \<Rightarrow> 'b option) \<Rightarrow> 'a list \<Rightarrow> 'b list" where
  "collect f [] = []"
| "collect f (x # xs) = (case f x of None \<Rightarrow> collect f xs | Some y \<Rightarrow> y # collect f xs)"

definition indexed :: "'a list \<Rightarrow> (nat \<times> 'a) list" where
  "indexed xs = enumerate 0 xs"

subsection \<open>sportInfo\<close>

text \<open>The object literal is evaluated property by property, so an exception in the
  title leaves no object.\<close>

definition sportInfo :: "'e cheerio \<Rightarrow> sport \<Rightarrow> jstring \<Rightarrow> jsexn + jsobject" where
  "sportInfo doc sp sportUrl =
     (case sportInfo_title doc sp of
        Inl e \<Rightarrow> Inl e
      | Inr title1 \<Rightarrow>
          (let info = [(js ''name'', JStr (sport_name sp)),
                       (js ''url'', JStr sportUrl),
                       (js ''title'', JStr title1),
                       (js ''description'', JStr (sportInfo_description doc))];
               heroImage = attrOrEmpty doc
                 (first (root_select doc ''header img, .hero img, .featured-image img'')) ''src''
           in Inr (if heroImage \<noteq> [] then obj_set info (js ''heroImage'') (JStr heroImage) else info)))"

subsection \<open>results\<close>

definition tableTitle :: "'e cheerio \<Rightarrow> nat \<Rightarrow> 'e \<Rightarrow> jstring" where
  "tableTitle doc i table =
     orElse (orElse (textTrim doc (sel_prev doc [table] ''h2, h3, h4''))
                    (textTrim doc (sel_find doc [table] ''caption'')))
            (js ''Resultados '' @ showNat (i + 1))"

definition tableCategory :: "'e cheerio \<Rightarrow> 'e \<Rightarrow> jstring" where
  "tableCategory doc table =
     orElse (textTrim doc (sel_prev doc [table] ''.category, .group, .division''))
            (textTrim doc (first (sel_find doc
               (sel_closest doc [table] ''.category-container, .group-container'')
               ''h3, h4, .title'')))"

definition resultTitle :: "'e cheerio \<Rightarrow> nat \<Rightarrow> 'e \<Rightarrow> jstring" where
  "resultTitle doc i table =
     (let title0 = tableTitle doc i table;
          category = tableCategory doc table
      in if category \<noteq> [] \<and> \<not> includes_str title0 category
         then category @ js '' - '' @ title0
         else title0)"

definition resultCell :: "'e cheerio \<Rightarrow> 'e \<Rightarrow> jsval" where
  "resultCell doc cell =
     (let cellText = textTrim doc [cell]
      in if sel_hasClass doc [cell] ''winner'' \<or> sel_attr doc [cell] ''data-winner'' = Some (js ''true'')
         then JObj [(js ''text'', JStr cellText), (js ''isWinner'', JBool True)]
         else if length (sel_find doc [cell] ''img'') > 0
         then JObj [(js ''text'', JStr cellText),
                    (js ''imgSrc'', JStr (attrOrEmpty doc (sel_find doc [cell] ''img'') ''src''))]
         else JStr cellText)"

definition resultRow :: "'e cheerio \<Rightarrow> 'e \<Rightarrow> jsval option" where
  "resultRow doc row =
     (let rowData = map (resultCell doc) (sel_find doc [row] ''th, td'')
      in if length rowData > 0 then Some (JArr rowData) else None)"

definition resultTable :: "'e cheerio \<Rightarrow> nat \<times> 'e \<Rightarrow> jsval option" where
  "resultTable doc it =
     (let title1 = resultTitle doc (fst it) (snd it);
          tableData = collect (resultRow doc) (sel_find doc [snd it] ''tr'')
      in if length tableData > 0
         then Some (JObj [(js ''title'', JStr title1), (js ''data'', JArr tableData)])
         else None)"

definition results :: "'e cheerio \<Rightarrow> jsval list" where
  "results doc = collect (resultTable doc) (indexed (root_select doc ''table, .table, .results-table''))"

subsection \<open>matches\<close>

definition matchCandidate :: "'e cheerio \<Rightarrow> 'e \<Rightarrow> jsobject" where
  "matchCandidate doc element =
     [(js ''title'', JStr (textTrim doc (first (sel_find doc [element] ''h3, h4, .match-title, .title'')))),
      (js ''teams'', JArr (map (\<lambda>el. JStr (textTrim doc [el]))
                     (sel_find doc [element] ''.team-name, .team, .participant, .competitor''))),
      (js ''score'', JStr (textTrim doc (sel_find doc [element] ''.score, .result, .match-score''))),
      (js ''winner'', JStr (textTrim doc (sel_find doc [element] ''.winner, .champion''))),
      (js ''date'', JStr (textTrim doc (sel_find doc [element] ''.date, .match-date, time, .datetime''))),
      (js ''time'', JStr (textTrim doc (sel_find doc [element] ''.time, .match-time''))),
      (js ''location'', JStr (textTrim doc (sel_find doc [element] ''.venue, .location, .place''))),
      (js ''category'', JStr (orElse
          (textTrim doc (sel_find doc [element] ''.category, .division, .group''))
          (textTrim doc (first (sel_find doc
             (sel_closest doc [element] ''.category-container, .group-container'')
             ''h3, .category-title'')))))]"

text \<open>
  \<^verbatim>\<open>Object.keys(match).forEach(key => { if (!match[key] || (Array.isArray(match[key])
  && match[key].length === 0)) delete match[key]; })\<close>
\<close>

definition cleanupMatchKey :: "jsobject \<Rightarrow> jstring \<Rightarrow> jsobject" where
  "cleanupMatchKey obj key =
     (if \<not> truthy (obj_get obj key) \<or> isEmptyArray (obj_get obj key)
      then obj_delete obj key else obj)"

definition cleanupMatch :: "jsobject \<Rightarrow> jsobject" where
  "cleanupMatch obj = foldl cleanupMatchKey obj (obj_keys obj)"

definition matchItem :: "'e cheerio \<Rightarrow> 'e \<Rightarrow> jsval option" where
  "matchItem doc element =
     (let m = cleanupMatch (matchCandidate doc element)
      in if length (obj_keys m) > 1 then Some (JObj m) else None)"

definition matches :: "'e cheerio \<Rightarrow> jsval list" where
  "matches doc = collect (matchItem doc) (root_select doc ''.match, .event, .fixture, .game, article'')"

subsection \<open>standings\<close>

definition standingsTeam :: "'e cheerio \<Rightarrow> 'e \<Rightarrow> jsobject" where
  "standingsTeam doc row =
     [(js ''position'', JStr (textTrim doc (sel_find doc [row] ''td:nth-child(1)''))),
      (js ''name'', JStr (textTrim doc (sel_find doc [row] ''td:nth-child(2)''))),
      (js ''played'', JStr (textTrim doc (sel_find doc [row] ''td:nth-child(3)''))),
      (js ''won'', JStr (textTrim doc (sel_find doc [row] ''td:nth-child(4)''))),
      (js ''drawn'', JStr (textTrim doc (sel_find doc [row] ''td:nth-child(5)''))),
      (js ''lost'', JStr (textTrim doc (sel_find doc [row] ''td:nth-child(6)''))),
      (js ''points'', JStr (orElse (textTrim doc (sel_find doc [row] ''td:nth-child(7)''))
                                   (textTrim doc (last_sel (sel_find doc [row] ''td'')))))]"

text \<open>The row callback: the row of index 0 is skipped, and a team is pushed only with
  both a name and a position.\<close>

definition standingsRow :: "'e cheerio \<Rightarrow> nat \<times> 'e \<Rightarrow> jsval option" where
  "standingsRow doc jr =
     (if fst jr = 0 then None
      else let team = standingsTeam doc (snd jr)
           in if truthy (obj_get team (js ''name'')) \<and> truthy (obj_get team (js ''position''))
              then Some (JObj team) else None)"

definition standingsTeams :: "'e cheerio \<Rightarrow> 'e \<Rightarrow> jsval list" where
  "standingsTeams doc element = collect (standingsRow doc) (indexed (sel_find doc [element] ''tr''))"

definition standingsTitle :: "'e cheerio \<Rightarrow> nat \<Rightarrow> 'e \<Rightarrow> jstring" where
  "standingsTitle doc i element =
     orElse (orElse (textTrim doc (sel_prev doc [element] ''h2, h3, h4''))
                    (textTrim doc (sel_find doc [element] ''caption, .table-title, .standings-title'')))
            (js ''Clasificaci'' @ [0xF3] @ js ''n '' @ showNat (i + 1))"

definition standingsBlock :: "'e cheerio \<Rightarrow> nat \<times> 'e \<Rightarrow> jsval option" where
  "standingsBlock doc ie =
     (let teams = standingsTeams doc (snd ie);
          standingData =
            [(js ''title'', JStr (standingsTitle doc (fst ie) (snd ie))),
             (js ''category'', JStr (textTrim doc (first (sel_find doc
                (sel_closest doc [snd ie] ''.category-container, .group-container'')
                ''h3, .category-title'')))),
             (js ''teams'', JArr teams)]
      in if length teams > 0 then Some (JObj standingData) else None)"

definition standings :: "'e cheerio \<Rightarrow> jsval list" where
  "standings doc = collect (standingsBlock doc)
     (indexed (root_select doc ''.standings, .ranking, .leaderboard, .positions, .table-standings''))"

subsection \<open>medals\<close>

definition medalItem :: "'e cheerio \<Rightarrow> 'e \<Rightarrow> jsobject" where
  "medalItem doc item =
     [(js ''position'', JStr (orElse (textTrim doc (sel_find doc [item] ''.position, .medal-type, .rank''))
                                     (textTrim doc (sel_find doc [item] ''td:nth-child(1)'')))),
      (js ''name'', JStr (orElse (textTrim doc (sel_find doc [item] ''.name, .athlete, .winner, .team-name''))
                                 (textTrim doc (sel_find doc [item] ''td:nth-child(2)'')))),
      (js ''school'', JStr (orElse (textTrim doc (sel_find doc [item] ''.school, .institution, .team''))
                                   (textTrim doc (sel_find doc [item] ''td:nth-child(3)'')))),
      (js ''result'', JStr (orElse (textTrim doc (sel_find doc [item] ''.result, .mark, .time, .score''))
                                   (textTrim doc (sel_find doc [item] ''td:nth-child(4)''))))]"

definition medalRow :: "'e cheerio \<Rightarrow> 'e \<Rightarrow> jsval option" where
  "medalRow doc item =
     (let medalItem1 = medalItem doc item
      in if truthy (obj_get medalItem1 (js ''name'')) \<and> truthy (obj_get medalItem1 (js ''position''))
         then Some (JObj medalItem1) else None)"

definition medalBlock :: "'e cheerio \<Rightarrow> 'e \<Rightarrow> jsval option" where
  "medalBlock doc element =
     (let items = collect (medalRow doc) (sel_find doc [element] ''li, tr, .medal-item, .award-item'');
          medalData =
            [(js ''title'', JStr (orElse (orElse (textTrim doc (sel_prev doc [element] ''h2, h3, h4''))
                                                 (textTrim doc (sel_find doc [element] ''caption, .table-title'')))
                                         (js ''Medallero''))),
             (js ''items'', JArr items)]
      in if length items > 0 then Some (JObj medalData) else None)"

definition medals :: "'e cheerio \<Rightarrow> jsval list" where
  "medals doc = collect (medalBlock doc) (root_select doc ''.medals, .awards, .winners'')"

subsection \<open>news\<close>

definition newsCandidate :: "'e cheerio \<Rightarrow> 'e \<Rightarrow> jsobject" where
  "newsCandidate doc element =
     [(js ''title'', JStr (textTrim doc (first (sel_find doc [element] ''h2, h3, .title, .news-title, .post-title'')))),
      (js ''date'', JStr (textTrim doc (first (sel_find doc [element] ''.date, .posted-on, time'')))),
      (js ''content'', JStr (textTrim doc (first (sel_find doc [element] ''p, .content, .excerpt'')))),
      (js ''author'', JStr (textTrim doc (first (sel_find doc [element] ''.author, .byline'')))),
      (js ''imageUrl'', JStr (attrOrEmpty doc (first (sel_find doc [element] ''img'')) ''src''))]"

text \<open>\<^verbatim>\<open>Object.keys(newsItem).forEach(key => { if (!newsItem[key]) delete newsItem[key]; })\<close>\<close>

definition cleanupNewsKey :: "jsobject \<Rightarrow> jstring \<Rightarrow> jsobject" where
  "cleanupNewsKey obj key = (if \<not> truthy (obj_get obj key) then obj_delete obj key else obj)"

definition cleanupNews :: "jsobject \<Rightarrow> jsobject" where
  "cleanupNews obj = foldl cleanupNewsKey obj (obj_keys obj)"

definition newsItem :: "'e cheerio \<Rightarrow> 'e \<Rightarrow> jsval option" where
  "newsItem doc element =
     (let n = cleanupNews (newsCandidate doc element)
      in if truthy (obj_get n (js ''title'')) \<or> truthy (obj_get n (js ''content''))
         then Some (JObj n) else None)"

definition news :: "'e cheerio \<Rightarrow> jsval list" where
  "news doc = collect (newsItem doc) (root_select doc ''.news, .post, .update, article, .entry'')"

subsection \<open>gallery\<close>

definition galleryItem :: "'e cheerio \<Rightarrow> 'e \<Rightarrow> jsval option" where
  "galleryItem doc img =
     (let imgSrc = attrOrEmpty doc [img] ''src'';
          imgTitle = (case sel_attr doc [img] ''alt'' of
                        Some a \<Rightarrow> if a \<noteq> [] then a else attrOrEmpty doc [img] ''title''
                      | None \<Rightarrow> attrOrEmpty doc [img] ''title'')
      in if imgSrc \<noteq> []
         then Some (JObj [(js ''url'', JStr imgSrc), (js ''title'', JStr imgTitle),
                          (js ''caption'', JStr (orElse (textTrim doc
                              (sel_find doc (sel_closest doc [img] ''figure'') ''figcaption'')) []))])
         else None)"

definition gallery :: "'e cheerio \<Rightarrow> jsval list" where
  "gallery doc = collect (galleryItem doc)
     (sel_find doc (root_select doc ''.gallery, .photos, .images'') ''img'')"

subsection \<open>The page result\<close>

text \<open>
  \<^verbatim>\<open>Object.keys(sportData).forEach(key => { if (Array.isArray(sportData[key]) &&
  sportData[key].length === 0) delete sportData[key]; })\<close>
\<close>

definition removeEmptyArrayKey :: "jsobject \<Rightarrow> jstring \<Rightarrow> jsobject" where
  "removeEmptyArrayKey obj key = (if isEmptyArray (obj_get obj key) then obj_delete obj key else obj)"

definition removeEmptyArrays :: "jsobject \<Rightarrow> jsobject" where
  "removeEmptyArrays obj = foldl removeEmptyArrayKey obj (obj_keys obj)"

text \<open>The part of the \<^verbatim>\<open>try\<close> block from \<open>sportInfo\<close> to the removal of the empty
  arrays: the buckets are built only once \<open>sportInfo\<close> has been.\<close>

definition sportData :: "'e cheerio \<Rightarrow> sport \<Rightarrow> jstring \<Rightarrow> jsexn + jsobject" where
  "sportData doc sp sportUrl =
     (case sportInfo doc sp sportUrl of
        Inl e \<Rightarrow> Inl e
      | Inr info \<Rightarrow>
          Inr (removeEmptyArrays
                 [(js ''sportInfo'', JObj info),
                  (js ''results'', JArr (results doc)),
                  (js ''matches'', JArr (matches doc)),
                  (js ''standings'', JArr (standings doc)),
                  (js ''medals'', JArr (medals doc)),
                  (js ''news'', JArr (news doc)),
                  (js ''gallery'', JArr (gallery doc))]))"

section \<open>The outside world: network, file system, clock\<close>

text \<open>
  A run leaves a trace of the requests, pauses and file operations it performed, oldest
  first.  What the network and the file system answer is given by the environment as a
  function of the trace so far, so successive operations may succeed or fail
  independently.  Console output is not part of the trace.
\<close>

record jserror =
  err_code :: jstring
  err_message :: jstring
  err_stack :: jstring

datatype fileData = Json jsval | Text jstring

datatype event =
    HttpGet jstring
  | Delay nat
  | Mkdir jstring
  | WriteFile jstring fileData
  | AppendFile jstring jstring

type_synonym trace = "event list"

record 'e env =
  httpGet :: "trace \<Rightarrow> jstring \<Rightarrow> jserror + jstring"
  fsError :: "trace \<Rightarrow> event \<Rightarrow> jserror option"
  cheerioLoad :: "jstring \<Rightarrow> 'e cheerio"
  isoNow :: "trace \<Rightarrow> jstring"
  toLowerCase :: "jstring \<Rightarrow> jstring"

subsection \<open>CONFIG and SPORTS\<close>

definition baseUrl :: jstring where
  "baseUrl = js ''https://clasico.com.do/juegos-nacionales-salesianos-2025/''"

definition outputDir :: jstring where
  "outputDir = js ''resultados_salesianos_2025''"

definition requestDelay :: nat where
  "requestDelay = 1500"

definition maxRetries :: int where
  "maxRetries = 3"

definition retryDelay :: nat where
  "retryDelay = 2000"

definition SPORTS :: "sport list" where
  "SPORTS =
     [\<lparr> sport_name = js ''F'' @ [0xFA] @ js ''tbol'', urlPath = js ''futbol'' \<rparr>,
      \<lparr> sport_name = js ''Atletismo'', urlPath = js ''atletismo'' \<rparr>,
      \<lparr> sport_name = js ''Baloncesto'', urlPath = js ''baloncesto'' \<rparr>,
      \<lparr> sport_name = js ''Ajedrez'', urlPath = js ''ajedrez'' \<rparr>,
      \<lparr> sport_name = js ''Voleibol'', urlPath = js ''voleibol'' \<rparr>,
      \<lparr> sport_name = js ''Tenis de Mesa'', urlPath = js ''tenis-de-mesa'' \<rparr>,
      \<lparr> sport_name = js ''B'' @ [0xE9] @ js ''isbol'', urlPath = js ''beisbol'' \<rparr>,
      \<lparr> sport_name = js ''F'' @ [0xFA] @ js ''tbol Sala'', urlPath = js ''futbol-sala'' \<rparr>]"

text \<open>\<^verbatim>\<open>path.join(dir, file)\<close> for the relative paths used here.\<close>

definition pathJoin :: "jstring \<Rightarrow> jstring \<Rightarrow> jstring" where
  "pathJoin dir file = dir @ js ''/'' @ file"

subsection \<open>fetchWithRetry\<close>

text \<open>
  One call of \<^verbatim>\<open>axiosInstance.get\<close> per round.  A failed round with retries left
  waits \<open>retryDelay\<close> and recurses with one retry less; with none left it rethrows
  the error it has just caught.  The response is represented by its \<^verbatim>\<open>data\<close>.
\<close>

function fetchWithRetry ::
  "'e env \<Rightarrow> jstring \<Rightarrow> int \<Rightarrow> trace \<Rightarrow> (jserror + jstring) \<times> trace" where
  "fetchWithRetry env url retries tr =
     (case httpGet env tr url of
        Inr response \<Rightarrow> (Inr response, tr @ [HttpGet url])
      | Inl error \<Rightarrow>
          if retries \<le> 0 then (Inl error, tr @ [HttpGet url])
          else fetchWithRetry env url (retries - 1) (tr @ [HttpGet url, Delay retryDelay]))"
  by pat_completeness auto
termination
  by (relation "measure (\<lambda>(env, url, retries, tr). nat retries)") auto

declare fetchWithRetry.simps [simp del]

subsection \<open>Files\<close>

text \<open>An operation is appended to the trace; its outcome is what the environment says
  for the trace before it.\<close>

definition fsDo :: "'e env \<Rightarrow> event \<Rightarrow> trace \<Rightarrow> jserror option \<times> trace" where
  "fsDo env ev tr = (fsError env tr ev, tr @ [ev])"

text \<open>\<open>ensureDirectoryExists\<close>: an error other than EEXIST is rethrown.\<close>

definition ensureDirectoryExists :: "'e env \<Rightarrow> jstring \<Rightarrow> trace \<Rightarrow> jserror option \<times> trace" where
  "ensureDirectoryExists env dirPath tr =
     (case fsDo env (Mkdir dirPath) tr of
        (None, tr1) \<Rightarrow> (None, tr1)
      | (Some error, tr1) \<Rightarrow>
          if err_code error \<noteq> js ''EEXIST'' then (Some error, tr1) else (None, tr1))"

text \<open>\<open>saveToFile\<close> catches a failed write and returns false.\<close>

definition saveToFile :: "'e env \<Rightarrow> jstring \<Rightarrow> jsval \<Rightarrow> trace \<Rightarrow> bool \<times> trace" where
  "saveToFile env filename data tr =
     (case fsDo env (WriteFile (pathJoin outputDir filename) (Json data)) tr of
        (None, tr1) \<Rightarrow> (True, tr1)
      | (Some error, tr1) \<Rightarrow> (False, tr1))"

text \<open>\<open>saveHtmlForDebugging\<close> catches every failure.\<close>

definition saveHtmlForDebugging :: "'e env \<Rightarrow> jstring \<Rightarrow> jstring \<Rightarrow> trace \<Rightarrow> trace" where
  "saveHtmlForDebugging env sportName html tr =
     (let debugDir = pathJoin outputDir (js ''debug'')
      in case ensureDirectoryExists env debugDir tr of
           (Some error, tr1) \<Rightarrow> tr1
         | (None, tr1) \<Rightarrow>
             snd (fsDo env (WriteFile
                    (pathJoin debugDir (replaceWsRuns (js ''_'') (toLowerCase env sportName) @ js ''.html''))
                    (Text html)) tr1))"

section \<open>The main page (enhanced-scraper.js, scrapeMainPage)\<close>

definition generalInfo :: "'e env \<Rightarrow> 'e cheerio \<Rightarrow> trace \<Rightarrow> jsobject" where
  "generalInfo env doc tr =
     [(js ''title'', JStr (textTrim doc (root_select doc ''title''))),
      (js ''description'', JStr (attrOrEmpty doc (root_select doc ''meta[name=\"description\"]'') ''content'')),
      (js ''heroImage'', JStr (attrOrEmpty doc
          (first (root_select doc ''header img, .hero img, .banner img'')) ''src'')),
      (js ''lastUpdated'', JStr (isoNow env tr))]"

text \<open>A news candidate, and the callback that pushes it when it has a title.\<close>

definition mainNewsCandidate :: "'e cheerio \<Rightarrow> 'e \<Rightarrow> jsobject" where
  "mainNewsCandidate doc element =
     [(js ''title'', JStr (textTrim doc (first (sel_find doc [element] ''h2, h3, .title, .entry-title'')))),
      (js ''date'', JStr (textTrim doc (first (sel_find doc [element] ''.date, .posted-on, time'')))),
      (js ''summary'', JStr (textTrim doc (first (sel_find doc [element] ''p, .excerpt, .summary'')))),
      (js ''imageUrl'', JStr (attrOrEmpty doc (first (sel_find doc [element] ''img'')) ''src'')),
      (js ''link'', JStr (attrOrEmpty doc (first (sel_find doc [element] ''a'')) ''href''))]"

definition mainNewsItem :: "'e cheerio \<Rightarrow> 'e \<Rightarrow> jsval option" where
  "mainNewsItem doc element =
     (let n = mainNewsCandidate doc element
      in if truthy (obj_get n (js ''title'')) then Some (JObj n) else None)"

definition mainNews :: "'e cheerio \<Rightarrow> jsval list" where
  "mainNews doc = collect (mainNewsItem doc) (root_select doc ''.news, .post, article, .entry'')"

text \<open>A schedule candidate, and the callback that pushes it when it has a title or a
  date.\<close>

definition scheduleCandidate :: "'e cheerio \<Rightarrow> 'e \<Rightarrow> jsobject" where
  "scheduleCandidate doc eventEl =
     [(js ''title'', JStr (textTrim doc (first (sel_find doc [eventEl] ''h3, h4, .event-title, .title'')))),
      (js ''date'', JStr (textTrim doc (first (sel_find doc [eventEl] ''.date, time, .datetime'')))),
      (js ''location'', JStr (textTrim doc (first (sel_find doc [eventEl] ''.venue, .location, .place'')))),
      (js ''description'', JStr (textTrim doc (first (sel_find doc [eventEl] ''p, .description''))))]"

definition scheduleItem :: "'e cheerio \<Rightarrow> 'e \<Rightarrow> jsval option" where
  "scheduleItem doc eventEl =
     (let item = scheduleCandidate doc eventEl
      in if truthy (obj_get item (js ''title'')) \<or> truthy (obj_get item (js ''date''))
         then Some (JObj item) else None)"

definition scheduleItems :: "'e cheerio \<Rightarrow> jsval list" where
  "scheduleItems doc =
     concat (map (\<lambda>element. collect (scheduleItem doc) (sel_find doc [element] ''li, .event, .fixture, .match''))
               (root_select doc ''.schedule, .calendar, .event-list, .fixtures''))"

subsection \<open>navigationLinks\<close>

definition navLink :: "'e env \<Rightarrow> 'e cheerio \<Rightarrow> 'e \<Rightarrow> jsobject" where
  "navLink env doc element =
     [(js ''text'', JStr (textTrim doc [element])),
      (js ''url'', JStr (attrOrEmpty doc [element] ''href'')),
      (js ''isActive'', JBool (sel_hasClass doc [element] ''active'' \<or>
                               sel_hasClass doc (sel_parent doc [element]) ''active'')),
      (js ''isSport'', JBool (list_ex (\<lambda>sp.
          includes_str (toLowerCase env (textTrim doc [element])) (toLowerCase env (sport_name sp)) \<or>
          includes_str (attrOrEmpty doc [element] ''href'') (urlPath sp)) SPORTS))]"

text \<open>
  \<^verbatim>\<open>if (link.text && link.url && !navigationLinks.some(l => l.url === link.url))
  navigationLinks.push(link)\<close>
\<close>

definition pushLink :: "jsobject list \<Rightarrow> jsobject \<Rightarrow> jsobject list" where
  "pushLink navigationLinks link =
     (if truthy (obj_get link (js ''text'')) \<and> truthy (obj_get link (js ''url'')) \<and>
         \<not> list_ex (\<lambda>l. obj_get l (js ''url'') = obj_get link (js ''url'')) navigationLinks
      then navigationLinks @ [link] else navigationLinks)"

definition navigationLinks :: "'e env \<Rightarrow> 'e cheerio \<Rightarrow> jsobject list" where
  "navigationLinks env doc =
     foldl pushLink [] (map (navLink env doc) (root_select doc ''nav a, .menu a, .navigation a, .main-menu a''))"

subsection \<open>standings of the main page\<close>

definition mainStandingRow :: "'e cheerio \<Rightarrow> 'e \<Rightarrow> jsval option" where
  "mainStandingRow doc row =
     (let cells = map (\<lambda>cell. JStr (textTrim doc [cell])) (sel_find doc [row] ''th, td'')
      in if length cells > 0 then Some (JArr cells) else None)"

text \<open>\<^verbatim>\<open>standingTable.title\<close>\<close>

definition mainStandingTitle :: "'e cheerio \<Rightarrow> 'e \<Rightarrow> jstring" where
  "mainStandingTitle doc element =
     orElse (orElse (textTrim doc (sel_prev doc [element] ''h2, h3, h4''))
                    (textTrim doc (sel_find doc [element] ''caption, .table-title'')))
            (js ''Standings'')"

definition mainStanding :: "'e cheerio \<Rightarrow> 'e \<Rightarrow> jsval option" where
  "mainStanding doc element =
     (let title1 = mainStandingTitle doc element;
          rows = collect (mainStandingRow doc) (sel_find doc [element] ''tr'')
      in if length rows > 0
         then Some (JObj [(js ''title'', JStr title1), (js ''rows'', JArr rows)])
         else None)"

definition mainStandings :: "'e cheerio \<Rightarrow> jsval list" where
  "mainStandings doc = collect (mainStanding doc)
     (root_select doc ''.standings, .medal-tally, .results-summary, .leaderboard'')"

subsection \<open>scrapeMainPage\<close>

definition mainPageData :: "'e env \<Rightarrow> 'e cheerio \<Rightarrow> trace \<Rightarrow> jsobject" where
  "mainPageData env doc tr =
     (let links = navigationLinks env doc
      in [(js ''generalInfo'', JObj (generalInfo env doc tr)),
          (js ''announcements'', JArr (announcements doc)),
          (js ''news'', JArr (mainNews doc)),
          (js ''scheduleItems'', JArr (scheduleItems doc)),
          (js ''navigationLinks'', JArr (map JObj links)),
          (js ''standings'', JArr (mainStandings doc)),
          (js ''sportLinks'', JArr (map JObj (filter (\<lambda>link. truthy (obj_get link (js ''isSport''))) links)))])"

text \<open>A failed fetch is caught and the result is \<^verbatim>\<open>null\<close>.\<close>

definition scrapeMainPage :: "'e env \<Rightarrow> trace \<Rightarrow> jsval \<times> trace" where
  "scrapeMainPage env tr =
     (case fetchWithRetry env baseUrl maxRetries tr of
        (Inl error, tr1) \<Rightarrow> (JNull, tr1)
      | (Inr html, tr1) \<Rightarrow>
          (let doc = cheerioLoad env html;
               tr2 = saveHtmlForDebugging env (js ''main_page'') html tr1;
               d = JObj (mainPageData env doc tr2);
               tr3 = snd (saveToFile env (js ''main_page.json'') d tr2)
           in (d, tr3)))"

section \<open>scrapeSportPage and runScraper (enhanced-scraper.js)\<close>

definition sportUrlOf :: "sport \<Rightarrow> jstring" where
  "sportUrlOf sp = baseUrl @ urlPath sp @ js ''/''"

text \<open>The object returned from the \<^verbatim>\<open>catch\<close> block, for the \<^verbatim>\<open>error.message\<close> of
  what was caught.\<close>

definition errorPage :: "sport \<Rightarrow> jstring \<Rightarrow> jsval" where
  "errorPage sp message =
     JObj [(js ''sportInfo'',
            JObj [(js ''name'', JStr (sport_name sp)),
                  (js ''url'', JStr (sportUrlOf sp)),
                  (js ''error'', JStr message)])]"

text \<open>
  The \<^verbatim>\<open>try\<close> block fetches the page, loads it, saves the debug copy and then builds
  the page result.  Two things can be caught: the error that \<open>fetchWithRetry\<close> rethrew,
  and the TypeError raised while the page result is built, whose message is
  \<open>findTypeErrorMessage\<close>.  The page's JSON file is written only after the page result
  has been built.
\<close>

definition scrapeSportPage :: "'e env \<Rightarrow> sport \<Rightarrow> trace \<Rightarrow> jsval \<times> trace" where
  "scrapeSportPage env sp tr =
     (case fetchWithRetry env (sportUrlOf sp) maxRetries tr of
        (Inl error, tr1) \<Rightarrow> (errorPage sp (err_message error), tr1)
      | (Inr html, tr1) \<Rightarrow>
          (let doc = cheerioLoad env html;
               tr2 = saveHtmlForDebugging env (sport_name sp) html tr1
           in case sportData doc sp (sportUrlOf sp) of
                Inl TypeError \<Rightarrow> (errorPage sp findTypeErrorMessage, tr2)
              | Inr d \<Rightarrow>
                  (let filename = replaceWsRuns (js ''_'') (toLowerCase env (sport_name sp)) @ js ''.json'';
                       tr3 = snd (saveToFile env filename (JObj d) tr2)
                   in (JObj d, tr3))))"

text \<open>The \<^verbatim>\<open>for (const sport of SPORTS)\<close> loop, filling \<open>sportsData\<close>.\<close>

fun scrapeSports :: "'e env \<Rightarrow> sport list \<Rightarrow> jsobject \<Rightarrow> trace \<Rightarrow> jsobject \<times> trace" where
  "scrapeSports env [] sportsData tr = (sportsData, tr)"
| "scrapeSports env (sp # rest) sportsData tr =
     (case scrapeSportPage env sp tr of
        (page, tr1) \<Rightarrow>
          scrapeSports env rest (obj_set sportsData (sport_name sp) page) (tr1 @ [Delay requestDelay]))"

text \<open>Optional property access \<^verbatim>\<open>v?.key\<close>, with the \<open>length\<close> of arrays and strings,
  and \<^verbatim>\<open>a || b\<close> on values.\<close>

fun getProp :: "jsval \<Rightarrow> jstring \<Rightarrow> jsval" where
  "getProp (JObj kvs) key = obj_get kvs key"
| "getProp (JArr vs) key = (if key = js ''length'' then JNum (int (length vs)) else JUndefined)"
| "getProp (JStr s) key = (if key = js ''length'' then JNum (int (length s)) else JUndefined)"
| "getProp _ key = JUndefined"

definition jsOr :: "jsval \<Rightarrow> jsval \<Rightarrow> jsval" where
  "jsOr a b = (if truthy a then a else b)"

definition summaryEntry :: "jstring \<Rightarrow> jsval \<Rightarrow> jsval" where
  "summaryEntry sportName sp =
     JObj [(js ''name'', JStr sportName),
           (js ''resultsCount'', jsOr (getProp (getProp sp (js ''results'')) (js ''length'')) (JNum 0)),
           (js ''matchesCount'', jsOr (getProp (getProp sp (js ''matches'')) (js ''length'')) (JNum 0)),
           (js ''hasStandings'', JBool (truthy (getProp (getProp sp (js ''standings'')) (js ''length'')))),
           (js ''hasMedals'', JBool (truthy (getProp (getProp sp (js ''medals'')) (js ''length'')))),
           (js ''error'', getProp (getProp sp (js ''sportInfo'')) (js ''error''))]"

definition summaryOf :: "'e env \<Rightarrow> jsval \<Rightarrow> jsobject \<Rightarrow> trace \<Rightarrow> jsval" where
  "summaryOf env mainPage sportsData tr =
     JObj [(js ''eventTitle'', jsOr (getProp (getProp mainPage (js ''generalInfo'')) (js ''title''))
                                    (JStr (js ''Juegos Nacionales Salesianos 2025''))),
           (js ''lastUpdated'', JStr (isoNow env tr)),
           (js ''sports'', JArr (map (\<lambda>sportName. summaryEntry sportName (obj_get sportsData sportName))
                                   (obj_keys sportsData)))]"

definition logFile :: jstring where
  "logFile = pathJoin outputDir (js ''scraping_log.txt'')"

text \<open>The \<^verbatim>\<open>catch\<close> block of \<open>runScraper\<close>: the error is written to the log and
  rethrown; a failure of that write is thrown in its place.\<close>

definition fatal :: "'e env \<Rightarrow> jserror \<Rightarrow> trace \<Rightarrow> (jserror + jsval) \<times> trace" where
  "fatal env error tr =
     (let errorLog = js ''ERROR at '' @ isoNow env tr @ js '': '' @ err_message error @ [10]
                     @ err_stack error @ [10, 10]
      in case fsDo env (AppendFile logFile errorLog) tr of
           (None, tr1) \<Rightarrow> (Inl error, tr1)
         | (Some error2, tr1) \<Rightarrow> (Inl error2, tr1))"

definition allData :: "'e env \<Rightarrow> jsval \<Rightarrow> jsobject \<Rightarrow> trace \<Rightarrow> jsval" where
  "allData env mainPage sportsData tr =
     JObj [(js ''mainPage'', mainPage),
           (js ''sports'', JObj sportsData),
           (js ''metadata'',
            JObj [(js ''scrapedAt'', JStr (isoNow env tr)),
                  (js ''version'', JStr (js ''1.0.0'')),
                  (js ''config'',
                   JObj [(js ''baseUrl'', JStr baseUrl),
                         (js ''sportsScraped'', JArr (map (\<lambda>s. JStr (sport_name s)) SPORTS))])])]"

definition runScraper :: "'e env \<Rightarrow> trace \<Rightarrow> (jserror + jsval) \<times> trace" where
  "runScraper env tr0 =
     (case ensureDirectoryExists env outputDir tr0 of
        (Some error, tr1) \<Rightarrow> fatal env error tr1
      | (None, tr1) \<Rightarrow>
         (case fsDo env (AppendFile logFile (js ''Scraping started at: '' @ isoNow env tr1 @ [10])) tr1 of
            (Some error, tr2) \<Rightarrow> fatal env error tr2
          | (None, tr2) \<Rightarrow>
             (case scrapeMainPage env tr2 of
                (mainPage, tr3) \<Rightarrow>
                 (case scrapeSports env SPORTS [] (tr3 @ [Delay requestDelay]) of
                    (sportsData, tr4) \<Rightarrow>
                     (let tr5 = snd (saveToFile env (js ''all_data.json'')
                                       (allData env mainPage sportsData tr4) tr4);
                          summary = summaryOf env mainPage sportsData tr5;
                          tr6 = snd (saveToFile env (js ''summary.json'') summary tr5);
                          completionLog =
                            js ''Scraping completed at: '' @ isoNow env tr6 @ [10]
                            @ js ''Total sports scraped: '' @ showNat (length (obj_keys sportsData)) @ [10]
                            @ js ''Results saved to: '' @ outputDir @ [10, 10]
                      in case fsDo env (AppendFile logFile completionLog) tr6 of
                           (Some error, tr7) \<Rightarrow> fatal env error tr7
                         | (None, tr7) \<Rightarrow> (Inr summary, tr7))))))"

section \<open>The minimal scraper (web-scraper.js)\<close>

definition ws_tableTitle :: "'e cheerio \<Rightarrow> nat \<Rightarrow> 'e \<Rightarrow> jstring" where
  "ws_tableTitle doc i table =
     orElse (textTrim doc (sel_prev doc [table] ''h2, h3, h4'')) (js ''Table '' @ showNat (i + 1))"

definition ws_resultRow :: "'e cheerio \<Rightarrow> 'e \<Rightarrow> jsval option" where
  "ws_resultRow doc row =
     (let rowData = map (\<lambda>cell. JStr (textTrim doc [cell])) (sel_find doc [row] ''th, td'')
      in if length rowData > 0 then Some (JArr rowData) else None)"

definition ws_resultTable :: "'e cheerio \<Rightarrow> nat \<times> 'e \<Rightarrow> jsval option" where
  "ws_resultTable doc it =
     (let tableData = collect (ws_resultRow doc) (sel_find doc [snd it] ''tr'')
      in if length tableData > 0
         then Some (JObj [(js ''title'', JStr (ws_tableTitle doc (fst it) (snd it))),
                          (js ''data'', JArr tableData)])
         else None)"

definition ws_results :: "'e cheerio \<Rightarrow> jsval list" where
  "ws_results doc = collect (ws_resultTable doc) (indexed (root_select doc ''table''))"

text \<open>The sport page of the minimal scraper: \<open>sportInfo\<close>, the match and news
  candidates with the callbacks that push them, and the page result.  The sport is given
  by its name.\<close>

definition ws_sportInfo :: "'e cheerio \<Rightarrow> jstring \<Rightarrow> jstring \<Rightarrow> jsobject" where
  "ws_sportInfo doc sport sportUrl =
     [(js ''sport'', JStr sport),
      (js ''url'', JStr sportUrl),
      (js ''title'', JStr (orElse (textTrim doc (first (root_select doc ''h1, .entry-title''))) sport))]"

definition ws_matchTeams :: "'e cheerio \<Rightarrow> 'e \<Rightarrow> jsval list" where
  "ws_matchTeams doc element =
     map (\<lambda>el. JStr (textTrim doc [el])) (sel_find doc [element] ''.team-name, .participant'')"

definition ws_matchCandidate :: "'e cheerio \<Rightarrow> 'e \<Rightarrow> jsobject" where
  "ws_matchCandidate doc element =
     [(js ''teams'', JArr (ws_matchTeams doc element)),
      (js ''result'', JStr (textTrim doc (sel_find doc [element] ''.score, .result''))),
      (js ''date'', JStr (textTrim doc (sel_find doc [element] ''.date, .datetime''))),
      (js ''location'', JStr (textTrim doc (sel_find doc [element] ''.venue, .location'')))]"



definition ws_newsCandidate :: "'e cheerio \<Rightarrow> 'e \<Rightarrow> jsobject" where
  "ws_newsCandidate doc element =
     [(js ''title'', JStr (textTrim doc (sel_find doc [element] ''h2, h3, .title''))),
      (js ''date'', JStr (textTrim doc (sel_find doc [element] ''.date''))),
      (js ''content'', JStr (textTrim doc (sel_find doc [element] ''p'')))]"




text \<open>The navigation links of the minimal scraper's main page.\<close>

definition ws_navLink :: "'e cheerio \<Rightarrow> 'e \<Rightarrow> jsobject" where
  "ws_navLink doc element =
     [(js ''text'', JStr (textTrim doc [element])),
      (js ''url'', JStr (attrOrEmpty doc [element] ''href''))]"

definition ws_navigationLinks :: "'e cheerio \<Rightarrow> jsobject list" where
  "ws_navigationLinks doc =
     foldl pushLink [] (map (ws_navLink doc) (root_select doc ''nav a, .menu a, .navigation a''))"

section \<open>Report rendering (data-processor.js)\<close>

text \<open>
  \<^verbatim>\<open>String(value)\<close> after the step that replaces an object or array by its
  \<^verbatim>\<open>JSON.stringify\<close> text.  The conversions that the engine supplies are a parameter:
  \<open>builtinText v\<close> is \<^verbatim>\<open>String(v)\<close> for a number and \<^verbatim>\<open>JSON.stringify(v)\<close> for an
  array or an object.
\<close>

fun stringValueOf :: "(jsval \<Rightarrow> jstring) \<Rightarrow> jsval \<Rightarrow> jstring" where
  "stringValueOf builtinText (JStr s) = s"
| "stringValueOf builtinText (JBool b) = (if b then js ''true'' else js ''false'')"
| "stringValueOf builtinText (JNum n) = builtinText (JNum n)"
| "stringValueOf builtinText (JArr vs) = builtinText (JArr vs)"
| "stringValueOf builtinText (JObj kvs) = builtinText (JObj kvs)"
| "stringValueOf builtinText JNull = js ''null''"
| "stringValueOf builtinText JUndefined = js ''undefined''"

text \<open>Code units: 10 newline, 34 double quote, 38 ampersand, 39 single quote, 44 comma,
  60 and 62 the angle brackets.\<close>

definition formatCSVValue :: "(jsval \<Rightarrow> jstring) \<Rightarrow> jsval \<Rightarrow> jstring" where
  "formatCSVValue builtinText v =
     (if v = JNull \<or> v = JUndefined then []
      else let stringValue = stringValueOf builtinText v
           in if includes_str stringValue [44] \<or> includes_str stringValue [34] \<or>
                 includes_str stringValue [10]
              then [34] @ replaceAll 34 [34, 34] stringValue @ [34]
              else stringValue)"

definition formatHTMLValue :: "(jsval \<Rightarrow> jstring) \<Rightarrow> jsval \<Rightarrow> jstring" where
  "formatHTMLValue builtinText v =
     (if v = JNull \<or> v = JUndefined then []
      else replaceAll 39 (js ''&#039;'')
            (replaceAll 34 (js ''&quot;'')
              (replaceAll 62 (js ''&gt;'')
                (replaceAll 60 (js ''&lt;'')
                  (replaceAll 38 (js ''&amp;'') (stringValueOf builtinText v))))))"

subsection \<open>convertToCSV\<close>

text \<open>
  The \<^verbatim>\<open>forEach\<close> over the rows carries \<open>headers\<close> and \<open>csv\<close>.  An array row
  is appended cell by cell; an object row is appended by header, and when no headers are
  known yet its keys become the headers and \<open>csv\<close> is reset to the header line.  A
  \<^verbatim>\<open>null\<close> row passes the \<^verbatim>\<open>typeof row === 'object'\<close> test and raises where its
  keys or a property are read.  Rows of other types are skipped.
\<close>

fun csvRows ::
  "(jsval \<Rightarrow> jstring) \<Rightarrow> jstring list option \<Rightarrow> jstring \<Rightarrow> jsval list \<Rightarrow> jsexn + jstring" where
  "csvRows S headers csv [] = Inr csv"
| "csvRows S headers csv (JArr vs # rows) =
     csvRows S headers (csv @ join [44] (map (formatCSVValue S) vs) @ [10]) rows"
| "csvRows S None csv (JObj kvs # rows) =
     (let hs = obj_keys kvs;
          csv1 = join [44] hs @ [10]
      in csvRows S (Some hs) (csv1 @ join [44] (map (\<lambda>key. formatCSVValue S (obj_get kvs key)) hs) @ [10]) rows)"
| "csvRows S (Some hs) csv (JObj kvs # rows) =
     csvRows S (Some hs) (csv @ join [44] (map (\<lambda>key. formatCSVValue S (obj_get kvs key)) hs) @ [10]) rows"
| "csvRows S None csv (JNull # rows) = Inl TypeError"
| "csvRows S (Some hs) csv (JNull # rows) =
     (if hs = [] then csvRows S (Some hs) (csv @ [10]) rows else Inl TypeError)"
| "csvRows S headers csv (_ # rows) = csvRows S headers csv rows"

definition convertToCSV :: "(jsval \<Rightarrow> jstring) \<Rightarrow> jsval \<Rightarrow> jstring list option \<Rightarrow> jsexn + jstring" where
  "convertToCSV S data headers =
     (case data of
        JArr rows \<Rightarrow>
          if length rows = 0 then Inr []
          else csvRows S headers (case headers of Some hs \<Rightarrow> join [44] hs @ [10] | None \<Rightarrow> []) rows
      | _ \<Rightarrow> Inr [])"

subsection \<open>convertToHTMLTable\<close>

definition td :: "jstring \<Rightarrow> jstring" where
  "td inner = js ''<td>'' @ inner @ js ''</td>''"

fun htmlRowCells :: "(jsval \<Rightarrow> jstring) \<Rightarrow> jstring list option \<Rightarrow> jsval \<Rightarrow> jsexn + jstring" where
  "htmlRowCells S headers (JArr cells) =
     Inr (concat (map (\<lambda>cell. td (formatHTMLValue S cell)) cells))"
| "htmlRowCells S None (JObj kvs) = Inl TypeError"
| "htmlRowCells S (Some hs) (JObj kvs) =
     Inr (concat (map (\<lambda>key. td (formatHTMLValue S (obj_get kvs key))) hs))"
| "htmlRowCells S None JNull = Inl TypeError"
| "htmlRowCells S (Some hs) JNull = (if hs = [] then Inr [] else Inl TypeError)"
| "htmlRowCells S headers _ = Inr []"

fun htmlRows :: "(jsval \<Rightarrow> jstring) \<Rightarrow> jstring list option \<Rightarrow> jstring \<Rightarrow> jsval list \<Rightarrow> jsexn + jstring" where
  "htmlRows S headers html [] = Inr html"
| "htmlRows S headers html (row # rows) =
     (case htmlRowCells S headers row of
        Inl e \<Rightarrow> Inl e
      | Inr cells \<Rightarrow> htmlRows S headers (html @ js ''<tr>'' @ cells @ js ''</tr>'') rows)"

text \<open>\<^verbatim>\<open>typeof v === 'object' && !Array.isArray(v)\<close>\<close>

fun isPlainObjectOrNull :: "jsval \<Rightarrow> bool" where
  "isPlainObjectOrNull (JObj kvs) = True"
| "isPlainObjectOrNull JNull = True"
| "isPlainObjectOrNull _ = False"

definition tableOpening :: "jstring \<Rightarrow> jstring" where
  "tableOpening title1 =
     [10] @ js ''    <div class=\"table-container\">'' @ [10]
     @ js ''      <h3>'' @ title1 @ js ''</h3>'' @ [10]
     @ js ''      <table border=\"1\" cellpadding=\"5\" cellspacing=\"0\">'' @ [10]
     @ js ''  ''"

definition theadOf :: "jstring list \<Rightarrow> jstring" where
  "theadOf hs = js ''<thead><tr>'' @ concat (map (\<lambda>header. js ''<th>'' @ header @ js ''</th>'') hs)
                @ js ''</tr></thead>''"

definition convertToHTMLTable ::
  "(jsval \<Rightarrow> jstring) \<Rightarrow> jsval \<Rightarrow> jstring \<Rightarrow> jstring list option \<Rightarrow> jsexn + jstring" where
  "convertToHTMLTable S data title1 headers =
     (case data of
        JArr rows \<Rightarrow>
          if length rows = 0 then Inr (js ''<p>No data available for '' @ title1 @ js ''</p>'')
          else
            (let html0 = tableOpening title1;
                 inferred =
                   (if headers = None \<and> isPlainObjectOrNull (hd rows)
                    then (case hd rows of JObj kvs \<Rightarrow> Inr (Some (obj_keys kvs)) | _ \<Rightarrow> Inl TypeError)
                    else Inr headers)
             in case inferred of
                  Inl e \<Rightarrow> Inl e
                | Inr headers1 \<Rightarrow>
                    (let html1 = (case headers1 of Some hs \<Rightarrow> html0 @ theadOf hs | None \<Rightarrow> html0)
                     in case htmlRows S headers1 (html1 @ js ''<tbody>'') rows of
                          Inl e \<Rightarrow> Inl e
                        | Inr html2 \<Rightarrow> Inr (html2 @ js ''</tbody></table></div>'')))
      | _ \<Rightarrow> Inr (js ''<p>No data available for '' @ title1 @ js ''</p>''))"

section \<open>Notions used in the statements\<close>

text \<open>The \<open>url\<close> of a collected link, and the push condition on the link itself.\<close>

definition linkUrl :: "jsobject \<Rightarrow> jsval" where
  "linkUrl l = obj_get l (js ''url'')"

definition linkOk :: "jsobject \<Rightarrow> bool" where
  "linkOk l \<longleftrightarrow> truthy (obj_get l (js ''text'')) \<and> truthy (obj_get l (js ''url''))"

text \<open>The events of \<open>k\<close> failed rounds: each a request followed by the retry delay.\<close>

definition retryRounds :: "jstring \<Rightarrow> nat \<Rightarrow> trace" where
  "retryRounds url k = concat (replicate k [HttpGet url, Delay retryDelay])"

text \<open>
  The \<^verbatim>\<open>error.message\<close> that the \<^verbatim>\<open>catch\<close> block of \<open>scrapeSportPage\<close> reads
  when the sport is scraped from the point \<open>tr\<close> of a run: that of the error the fetch
  ended with, or else that of the TypeError.
\<close>

definition caughtMessage :: "'e env \<Rightarrow> sport \<Rightarrow> trace \<Rightarrow> jstring" where
  "caughtMessage env sp tr =
     (case fst (fetchWithRetry env (sportUrlOf sp) maxRetries tr) of
        Inl error \<Rightarrow> err_message error
      | Inr html \<Rightarrow> findTypeErrorMessage)"

text \<open>The number a string of decimal digits denotes.\<close>

definition digitsValue :: "jstring \<Rightarrow> nat" where
  "digitsValue s = foldl (\<lambda>acc c. 10 * acc + (unat c - 48)) 0 s"

text \<open>
  The title search as the specification words it: the preceding heading, then a nested
  caption, then the heading of the containing category block, then ``Table N''.
\<close>

definition claimedTableTitle :: "'e cheerio \<Rightarrow> nat \<Rightarrow> 'e \<Rightarrow> jstring" where
  "claimedTableTitle doc i table =
     orElse (textTrim doc (sel_prev doc [table] ''h2, h3, h4''))
       (orElse (textTrim doc (sel_find doc [table] ''caption''))
          (orElse (textTrim doc (first (sel_find doc
                     (sel_closest doc [table] ''.category-container, .group-container'')
                     ''h3, h4, .title'')))
                  (js ''Table '' @ showNat (i + 1))))"

section \<open>Reading CSV back\<close>

text \<open>
  The text that a cell value stands for in a report, by the kind of the value: a string
  stands for itself, a boolean for its name, a number for the text that \<^verbatim>\<open>String\<close>
  gives it, an array or an object for its JSON text, and \<^verbatim>\<open>null\<close> and
  \<^verbatim>\<open>undefined\<close> for the empty text.  \<open>S\<close> is the engine's conversion of numbers, arrays
  and objects.
\<close>

fun cellText :: "(jsval \<Rightarrow> jstring) \<Rightarrow> jsval \<Rightarrow> jstring" where
  "cellText S (JStr s) = s"
| "cellText S (JBool b) = (if b then js ''true'' else js ''false'')"
| "cellText S (JNum n) = S (JNum n)"
| "cellText S (JArr vs) = S (JArr vs)"
| "cellText S (JObj kvs) = S (JObj kvs)"
| "cellText S JNull = []"
| "cellText S JUndefined = []"

definition needsQuote :: "jstring \<Rightarrow> bool" where
  "needsQuote t \<longleftrightarrow> 44 \<in> set t \<or> 34 \<in> set t \<or> 10 \<in> set t"

text \<open>
  Decoding one encoded cell by the usual CSV rules: a cell that opens with a double
  quote loses its enclosing quotes and every doubled quote inside becomes one; any other
  cell is taken as it is.
\<close>

fun undouble :: "jstring \<Rightarrow> jstring" where
  "undouble (c # d # cs) = (if c = 34 \<and> d = 34 then 34 # undouble cs else c # undouble (d # cs))"
| "undouble cs = cs"

definition csvDecodeCell :: "jstring \<Rightarrow> jstring" where
  "csvDecodeCell cell =
     (case cell of [] \<Rightarrow> [] | c # cs \<Rightarrow> if c = 34 then undouble (butlast cs) else cell)"

text \<open>
  A reader for whole documents, following the field rules of RFC 4180 with the line feed
  that \<open>convertToCSV\<close> writes as the record terminator: fields are separated by commas, a
  field that opens with a double quote runs to its closing quote, and inside it a doubled
  quote is one quote while commas and line feeds are data.  The state is the position
  within a field, the field read so far (reversed) and the fields of the current record
  (reversed).
\<close>

datatype csvState = FieldStart | Unquoted | Quoted | QuoteInQuoted

fun csvParse :: "csvState \<Rightarrow> jstring \<Rightarrow> jstring list \<Rightarrow> jstring \<Rightarrow> jstring list list" where
  "csvParse st f r [] = (if st = FieldStart \<and> r = [] then [] else [rev (rev f # r)])"
| "csvParse FieldStart f r (c # cs) =
     (if c = 34 then csvParse Quoted [] r cs
      else if c = 44 then csvParse FieldStart [] ([] # r) cs
      else if c = 10 then rev ([] # r) # csvParse FieldStart [] [] cs
      else csvParse Unquoted [c] r cs)"
| "csvParse Unquoted f r (c # cs) =
     (if c = 44 then csvParse FieldStart [] (rev f # r) cs
      else if c = 10 then rev (rev f # r) # csvParse FieldStart [] [] cs
      else csvParse Unquoted (c # f) r cs)"
| "csvParse Quoted f r (c # cs) =
     (if c = 34 then csvParse QuoteInQuoted f r cs
      else csvParse Quoted (c # f) r cs)"
| "csvParse QuoteInQuoted f r (c # cs) =
     (if c = 34 then csvParse Quoted (34 # f) r cs
      else if c = 44 then csvParse FieldStart [] (rev f # r) cs
      else if c = 10 then rev (rev f # r) # csvParse FieldStart [] [] cs
      else csvParse Unquoted (c # f) r cs)"

section \<open>Reading escaped HTML text back\<close>

text \<open>The entity written for one code unit by a single pass over the text.\<close>

definition htmlEntity :: "jchar \<Rightarrow> jstring" where
  "htmlEntity c =
     (if c = 38 then js ''&amp;''
      else if c = 60 then js ''&lt;''
      else if c = 62 then js ''&gt;''
      else if c = 34 then js ''&quot;''
      else if c = 39 then js ''&#039;''
      else [c])"

text \<open>What a browser shows for escaped text: each of the five entities stands for its
  character, anything else for itself.\<close>

function htmlDecode :: "jstring \<Rightarrow> jstring" where
  "htmlDecode s =
     (if s = [] then []
      else if prefix (js ''&amp;'') s then 38 # htmlDecode (drop 5 s)
      else if prefix (js ''&lt;'') s then 60 # htmlDecode (drop 4 s)
      else if prefix (js ''&gt;'') s then 62 # htmlDecode (drop 4 s)
      else if prefix (js ''&quot;'') s then 34 # htmlDecode (drop 6 s)
      else if prefix (js ''&#039;'') s then 39 # htmlDecode (drop 6 s)
      else hd s # htmlDecode (tl s))"
  by pat_completeness auto

termination
  by (relation "measure length") auto

declare htmlDecode.simps [simp del]

section \<open>Sample pages and a sample environment\<close>

text \<open>
  A main page, its elements numbered.  The document title is ``Juegos  2025'' with two
  spaces inside.  Element 1 is an announcement whose heading, element 2, reads
  ``Aviso  importante'', again with two spaces, and whose whole text continues on a second
  line with ``Hoy''.  Element 10 is a schedule of three entries: 11 has the title
  ``Final'' and nothing else, 12 has the date ``Lunes'' and nothing else, 13 is empty.
  Elements 20 and 21 are news blocks, the first with the title ``Noticia'', the second
  with a paragraph and no title.  Elements 30 and 40 are standings tables of one row
  each, the first with the caption ``Medallero'', the second with neither heading nor
  caption.  There are no navigation links.
\<close>

definition mainFind :: "((nat list \<times> string) \<times> nat list) list" where
  "mainFind =
     [(([1], ''h2, h3, .title, strong''), [2]),
      (([10], ''li, .event, .fixture, .match''), [11, 12, 13]),
      (([11], ''h3, h4, .event-title, .title''), [14]),
      (([12], ''.date, time, .datetime''), [15]),
      (([20], ''h2, h3, .title, .entry-title''), [22]),
      (([21], ''p, .excerpt, .summary''), [23]),
      (([30], ''caption, .table-title''), [31]),
      (([30], ''tr''), [32]),
      (([32], ''th, td''), [33]),
      (([40], ''tr''), [41]),
      (([41], ''th, td''), [42])]"

definition mainText :: "(nat \<times> jstring) list" where
  "mainText =
     [(0, js '' Juegos  2025 ''),
      (1, js '' Aviso  importante '' @ [10] @ js ''  Hoy ''),
      (2, js ''Aviso  importante''),
      (14, js ''Final''), (15, js ''Lunes''), (22, js ''Noticia''), (23, js ''Texto''),
      (31, js '' Medallero ''), (33, js ''Oro''), (42, js ''x'')]"

definition mainDoc :: "nat cheerio" where
  "mainDoc = \<lparr>
     root_select = (\<lambda>s. if s = ''title'' then [0]
                       else if s = ''.announcement, .notice, .alert, .important'' then [1]
                       else if s = ''.schedule, .calendar, .event-list, .fixtures'' then [10]
                       else if s = ''.news, .post, article, .entry'' then [20, 21]
                       else if s = ''.standings, .medal-tally, .results-summary, .leaderboard'' then [30, 40]
                       else []),
     sel_find = (\<lambda>es s. case map_of mainFind (es, s) of None \<Rightarrow> [] | Some r \<Rightarrow> r),
     sel_prev = (\<lambda>es s. []),
     sel_closest = (\<lambda>es s. []),
     sel_parent = (\<lambda>es. []),
     sel_text = (\<lambda>es. concat (map (\<lambda>e. case map_of mainText e of None \<Rightarrow> [] | Some t \<Rightarrow> t) es)),
     sel_attr = (\<lambda>es a. None),
     sel_hasClass = (\<lambda>es c. False) \<rparr>"

text \<open>A navigation bar of four anchors: two of them share a target, and the last has
  no text.\<close>

definition navDoc :: "nat cheerio" where
  "navDoc = \<lparr>
     root_select = (\<lambda>s. if s = ''nav a, .menu a, .navigation a, .main-menu a'' \<or> s = ''nav a, .menu a, .navigation a''
                         then [0, 1, 2, 3] else []),
     sel_find = (\<lambda>es s. []),
     sel_prev = (\<lambda>es s. []),
     sel_closest = (\<lambda>es s. []),
     sel_parent = (\<lambda>es. []),
     sel_text = (\<lambda>es. if es = [0] then js ''Inicio'' else if es = [1] then js ''Futbol''
                       else if es = [2] then js ''Home'' else []),
     sel_attr = (\<lambda>es a. if a = ''href'' \<and> (es = [0] \<or> es = [2] \<or> es = [3]) then Some (js ''/'')
                         else if a = ''href'' \<and> es = [1] then Some (js ''/futbol/'') else None),
     sel_hasClass = (\<lambda>es c. False) \<rparr>"

text \<open>
  A sport page as the minimal scraper reads it.  Element 5 is the heading, with the text
  ``Final  A'' between blanks.  Elements 0, 1 and 2 are match blocks: 0 has two teams and
  the result ``2-1'', 1 has only the date ``Lunes'', 2 has only the result ``3-0''.
  Elements 40 and 43 are news blocks: 40 has a paragraph and no heading, 43 only a date.
  Elements 50, 51 and 56 are tables of one row each: 50 and 51 lie in a group container
  headed ``Grupo A'', 51 directly follows the heading ``Posiciones'', and 56 holds the
  caption ``Serie B''.
\<close>

definition pageFind :: "((nat list \<times> string) \<times> nat list) list" where
  "pageFind =
     [(([0], ''.team-name, .participant''), [70, 71]),
      (([0], ''.score, .result''), [11]),
      (([1], ''.date, .datetime''), [14]),
      (([2], ''.score, .result''), [13]),
      (([40], ''p''), [41]),
      (([43], ''.date''), [44]),
      (([50], ''tr''), [52]),
      (([52], ''th, td''), [53]),
      (([51], ''tr''), [54]),
      (([54], ''th, td''), [55]),
      (([56], ''tr''), [57]),
      (([57], ''th, td''), [58]),
      (([56], ''caption''), [59]),
      (([60], ''h3, h4, .title''), [61])]"

definition pageText :: "(nat \<times> string) list" where
  "pageText =
     [(5, '' Final  A ''), (11, ''2-1''), (13, ''3-0''), (14, ''Lunes''),
      (41, ''Gran jornada''), (44, ''Hoy''),
      (53, ''x''), (55, ''y''), (58, ''z''), (59, ''Serie B''),
      (61, ''Grupo A''), (62, '' Posiciones ''), (70, ''Don Bosco''), (71, ''Mazzarello'')]"

definition pageDoc :: "nat cheerio" where
  "pageDoc = \<lparr>
     root_select = (\<lambda>s. if s = ''h1, .entry-title'' then [5]
                       else if s = ''.match, .event, .fixture, article'' then [0, 1, 2]
                       else if s = ''.news, .post, .update'' then [40, 43]
                       else if s = ''table'' then [50, 51, 56]
                       else []),
     sel_find = (\<lambda>es s. case map_of pageFind (es, s) of None \<Rightarrow> [] | Some r \<Rightarrow> r),
     sel_prev = (\<lambda>es s. if es = [51] \<and> s = ''h2, h3, h4'' then [62] else []),
     sel_closest = (\<lambda>es s. if (es = [50] \<or> es = [51]) \<and> s = ''.category-container, .group-container''
                            then [60] else []),
     sel_parent = (\<lambda>es. []),
     sel_text = (\<lambda>es. concat (map (\<lambda>e. case map_of pageText e of None \<Rightarrow> [] | Some t \<Rightarrow> js t) es)),
     sel_attr = (\<lambda>es a. None),
     sel_hasClass = (\<lambda>es c. False) \<rparr>"

text \<open>The address of the Atletismo page.\<close>

definition atletismoUrl :: jstring where
  "atletismoUrl = baseUrl @ js ''atletismo/''"

text \<open>The error of a request that timed out.\<close>

definition timeoutError :: jserror where
  "timeoutError = \<lparr> err_code = js ''ECONNABORTED'', err_message = js ''timeout'', err_stack = [] \<rparr>"

text \<open>An environment in which every request for the Atletismo page times out and
  every other operation succeeds; every page that arrives is the sample main page.
  Lower-casing is that of the letters A to Z, the only capitals in the names of
  \<open>SPORTS\<close>.\<close>

definition demoEnv :: "nat env" where
  "demoEnv = \<lparr>
     httpGet = (\<lambda>tr url. if url = atletismoUrl
                  then Inl timeoutError
                  else Inr (js ''<html></html>'')),
     fsError = (\<lambda>tr ev. None),
     cheerioLoad = (\<lambda>html. mainDoc),
     isoNow = (\<lambda>tr. js ''2025-01-01T00:00:00.000Z''),
     toLowerCase = map (\<lambda>c. if 65 \<le> c \<and> c \<le> 90 then c + 32 else c) \<rparr>"

text \<open>Sample conversions of the engine: a number is written in decimal, as
  \<^verbatim>\<open>String\<close> writes every safe integer; arrays and objects do not occur in the
  samples.\<close>

fun showInt :: "int \<Rightarrow> jstring" where
  "showInt n = (if n < 0 then js ''-'' @ showNat (nat (- n)) else showNat (nat n))"

definition demoText :: "jsval \<Rightarrow> jstring" where
  "demoText v = (case v of JNum n \<Rightarrow> showInt n | _ \<Rightarrow> [])"

text \<open>Three rows of two cells, with a comma, quotes, a line feed, \<^verbatim>\<open>null\<close>, a number
  and a boolean.\<close>

definition csvRowsDemo :: "jsval list list" where
  "csvRowsDemo =
     [[JStr (js ''He said, \"hi\"''), JStr (js ''a'' @ [10] @ js ''b'')],
      [JNull, JStr (js ''x,y'')],
      [JNum 42, JBool True]]"

text \<open>A table of one row holding the cell of the specification's example.\<close>

definition htmlRowsDemo :: "jsval list list" where
  "htmlRowsDemo = [[JStr (js ''<b>x</b>'')]]"

section \<open>Properties of the fallback extraction\<close>

lemma fallbackLoop_skip:
  "\<forall>p \<in> set pre. sel_find doc el p = [] \<Longrightarrow>
   fallbackLoop doc (Some el) (pre @ rest) = fallbackLoop doc (Some el) rest"
  by (induction pre) (simp_all add: elementFind_def first_def)

lemma fallbackLoop_hit:
  "sel_find doc el s \<noteq> [] \<Longrightarrow>
   fallbackLoop doc (Some el) (s # rest) = Inr (Some [hd (sel_find doc el s)])"
  by (cases "sel_find doc el s") (simp_all add: elementFind_def first_def)

lemma extract_without_context: "extractWithFallbackSelectors doc selectors None = Inl TypeError"
  by (cases selectors) (simp_all add: extractWithFallbackSelectors_def elementFind_def)

lemma sportData_raises: "sportData doc sp sportUrl = Inl TypeError"
  by (simp add: sportData_def sportInfo_def sportInfo_title_def extract_without_context)

lemma scrapeSportPage_eq:
  "scrapeSportPage env sp tr =
     (case fetchWithRetry env (sportUrlOf sp) maxRetries tr of
        (Inl error, tr1) \<Rightarrow> (errorPage sp (err_message error), tr1)
      | (Inr html, tr1) \<Rightarrow>
          (errorPage sp findTypeErrorMessage, saveHtmlForDebugging env (sport_name sp) html tr1))"
  by (simp add: scrapeSportPage_def sportData_raises Let_def split: prod.splits sum.splits)

text \<open>
  C1.  Given a scope, selectors are tried in declared order and the first one with at
  least one match in the scope wins: the result is the one-element selection holding that
  selector's first match.  In particular, when \<open>s1\<close> matches nothing and \<open>s2\<close> matches
  something, the list \<open>s1, s2, ...\<close> gives exactly what \<open>s2\<close> alone gives.  Given no
  scope, which is how the title of a sport page calls it, the extraction returns nothing:
  it raises a TypeError whatever the selectors and the page are, and so does the title.
  A sport page that was fetched therefore ends as the placeholder that carries the
  TypeError's message, with the debug copy of the page as the only file written.
\<close>

theorem extractWithFallbackSelectors_scoped_or_raises:
  "extractWithFallbackSelectors doc selectors None = Inl TypeError \<and>
   sportInfo_title doc sp = Inl TypeError \<and>
   (fst (fetchWithRetry env (sportUrlOf sp) maxRetries tr) = Inr html \<longrightarrow>
      scrapeSportPage env sp tr =
        (JObj [(js ''sportInfo'',
                JObj [(js ''name'', JStr (sport_name sp)),
                      (js ''url'', JStr (baseUrl @ urlPath sp @ js ''/'')),
                      (js ''error'', JStr (js ''element.find is not a function''))])],
         saveHtmlForDebugging env (sport_name sp) html
           (snd (fetchWithRetry env (sportUrlOf sp) maxRetries tr)))) \<and>
   (sel_find doc el s1 = [] \<and> sel_find doc el s2 \<noteq> [] \<longrightarrow>
      extractWithFallbackSelectors doc (s1 # s2 # others) (Some el)
        = extractWithFallbackSelectors doc [s2] (Some el) \<and>
      extractWithFallbackSelectors doc (s1 # s2 # others) (Some el)
        = Inr [hd (sel_find doc el s2)]) \<and>
   ((\<forall>p \<in> set pre. sel_find doc el p = []) \<and> sel_find doc el s \<noteq> [] \<longrightarrow>
      extractWithFallbackSelectors doc (pre @ s # post) (Some el)
        = Inr [hd (sel_find doc el s)])"
proof -
  have general: "extractWithFallbackSelectors doc (pre @ s # post) (Some el)
        = Inr [hd (sel_find doc el s)]"
    if "\<forall>p \<in> set pre. sel_find doc el p = []" "sel_find doc el s \<noteq> []"
    for pre s post
    using that
    by (simp add: extractWithFallbackSelectors_def fallbackLoop_skip fallbackLoop_hit
          del: fallbackLoop.simps)
  have two: "extractWithFallbackSelectors doc (s1 # s2 # others) (Some el)
        = Inr [hd (sel_find doc el s2)]"
    if "sel_find doc el s1 = []" "sel_find doc el s2 \<noteq> []"
    using general [of "[s1]" s2 others] that by simp
  have one: "extractWithFallbackSelectors doc [s2] (Some el)
        = Inr [hd (sel_find doc el s2)]"
    if "sel_find doc el s2 \<noteq> []"
    using general [of "[]" s2 "[]"] that by simp
  have title: "sportInfo_title doc sp = Inl TypeError"
    by (simp add: sportInfo_title_def extract_without_context)
  have page: "fst (fetchWithRetry env (sportUrlOf sp) maxRetries tr) = Inr html \<longrightarrow>
      scrapeSportPage env sp tr =
        (JObj [(js ''sportInfo'',
                JObj [(js ''name'', JStr (sport_name sp)),
                      (js ''url'', JStr (baseUrl @ urlPath sp @ js ''/'')),
                      (js ''error'', JStr (js ''element.find is not a function''))])],
         saveHtmlForDebugging env (sport_name sp) html
           (snd (fetchWithRetry env (sportUrlOf sp) maxRetries tr)))"
    by (cases "fetchWithRetry env (sportUrlOf sp) maxRetries tr")
       (simp add: scrapeSportPage_eq errorPage_def sportUrlOf_def findTypeErrorMessage_def)
  show ?thesis
    using general two one title page extract_without_context [of doc selectors] by simp
qed

lemma demoEnv_futbol:
  "fst (fetchWithRetry demoEnv (sportUrlOf (SPORTS ! 0)) maxRetries []) = Inr (js ''<html></html>'')"
  "saveHtmlForDebugging demoEnv (js ''F'' @ [0xFA] @ js ''tbol'') (js ''<html></html>'')
     (snd (fetchWithRetry demoEnv (sportUrlOf (SPORTS ! 0)) maxRetries []))
   = [HttpGet (js ''https://clasico.com.do/juegos-nacionales-salesianos-2025/futbol/''),
      Mkdir (js ''resultados_salesianos_2025/debug''),
      WriteFile (js ''resultados_salesianos_2025/debug/f'' @ [0xFA] @ js ''tbol.html'')
        (Text (js ''<html></html>''))]"
  "sport_name (SPORTS ! 0) = js ''F'' @ [0xFA] @ js ''tbol''"
  "baseUrl @ urlPath (SPORTS ! 0) @ js ''/''
     = js ''https://clasico.com.do/juegos-nacionales-salesianos-2025/futbol/''"
  by code_simp+

theorem extractWithFallbackSelectors_scoped_or_raises_witness:
  "sel_find mainDoc [1] ''h1'' = [] \<and> sel_find mainDoc [1] ''h2, h3, .title, strong'' = [2] \<and>
   extractWithFallbackSelectors mainDoc [''h1'', ''h2, h3, .title, strong'', ''p''] (Some [1]) = Inr [2] \<and>
   extractWithFallbackSelectors mainDoc [''h2, h3, .title, strong''] (Some [1]) = Inr [2] \<and>
   extractWithFallbackSelectors mainDoc [''h1'', ''h2, h3, .title, strong'', ''p''] None = Inl TypeError \<and>
   scrapeSportPage demoEnv (SPORTS ! 0) [] =
     (JObj [(js ''sportInfo'',
             JObj [(js ''name'', JStr (js ''F'' @ [0xFA] @ js ''tbol'')),
                   (js ''url'', JStr (js ''https://clasico.com.do/juegos-nacionales-salesianos-2025/futbol/'')),
                   (js ''error'', JStr (js ''element.find is not a function''))])],
      [HttpGet (js ''https://clasico.com.do/juegos-nacionales-salesianos-2025/futbol/''),
       Mkdir (js ''resultados_salesianos_2025/debug''),
       WriteFile (js ''resultados_salesianos_2025/debug/f'' @ [0xFA] @ js ''tbol.html'')
         (Text (js ''<html></html>''))])"
proof -
  have a: "sel_find mainDoc [1] ''h1'' = []"
    by code_simp
  have b: "sel_find mainDoc [1] ''h2, h3, .title, strong'' = [2]"
    by code_simp
  have b': "sel_find mainDoc [1] ''h2, h3, .title, strong'' \<noteq> []"
    using b by simp
  note t = extractWithFallbackSelectors_scoped_or_raises
      [of mainDoc "[''h1'', ''h2, h3, .title, strong'', ''p'']" "SPORTS ! 0" demoEnv "[]"
          "js ''<html></html>''" "[1]" "''h1''"
          "''h2, h3, .title, strong''" "[''p'']" "[''h1'']" "''h2, h3, .title, strong''" "[''p'']"]
  note inst = t [THEN conjunct2, THEN conjunct2, THEN conjunct2, THEN conjunct1, THEN mp,
                 OF conjI [OF a b']]
  have e5: "scrapeSportPage demoEnv (SPORTS ! 0) [] =
     (JObj [(js ''sportInfo'',
             JObj [(js ''name'', JStr (js ''F'' @ [0xFA] @ js ''tbol'')),
                   (js ''url'', JStr (js ''https://clasico.com.do/juegos-nacionales-salesianos-2025/futbol/'')),
                   (js ''error'', JStr (js ''element.find is not a function''))])],
      [HttpGet (js ''https://clasico.com.do/juegos-nacionales-salesianos-2025/futbol/''),
       Mkdir (js ''resultados_salesianos_2025/debug''),
       WriteFile (js ''resultados_salesianos_2025/debug/f'' @ [0xFA] @ js ''tbol.html'')
         (Text (js ''<html></html>''))])"
    using t [THEN conjunct2, THEN conjunct2, THEN conjunct1, THEN mp, OF demoEnv_futbol(1)]
    by (simp only: demoEnv_futbol)
  have e1: "extractWithFallbackSelectors mainDoc [''h1'', ''h2, h3, .title, strong'', ''p''] (Some [1])
          = extractWithFallbackSelectors mainDoc [''h2, h3, .title, strong''] (Some [1])"
    by (rule inst [THEN conjunct1])
  have e2: "extractWithFallbackSelectors mainDoc [''h1'', ''h2, h3, .title, strong'', ''p''] (Some [1]) = Inr [2]"
    using inst [THEN conjunct2] unfolding b by (simp only: list.sel)
  have e3: "extractWithFallbackSelectors mainDoc [''h2, h3, .title, strong''] (Some [1]) = Inr [2]"
    using e1 e2 by simp
  have e4: "extractWithFallbackSelectors mainDoc [''h1'', ''h2, h3, .title, strong'', ''p''] None = Inl TypeError"
    by (rule t [THEN conjunct1])
  show ?thesis
    using a b e2 e3 e4 e5 by simp
qed

section \<open>Properties of the text extraction\<close>

lemma of_char_word_inj: "(of_char x :: 16 word) = of_char y \<Longrightarrow> x = y"
proof -
  assume h: "(of_char x :: 16 word) = of_char y"
  have lt: "(of_char c :: nat) < 2 ^ 16" for c :: char
    by (rule less_trans [OF nat_of_char_less_256]) simp
  have w: "(of_char c :: 16 word) = of_nat (of_char c)" for c :: char
    by (simp only: of_nat_of_char)
  have "unat (of_char c :: 16 word) = of_char c" for c :: char
    unfolding w using lt [of c] by (simp only: unat_of_nat) simp
  then have "(of_char x :: nat) = of_char y" using h by metis
  then show "x = y" by simp
qed

lemma js_eq_iff [simp]: "js a = js b \<longleftrightarrow> a = b"
proof -
  have "inj (of_char :: char \<Rightarrow> 16 word)"
    by (rule injI) (rule of_char_word_inj)
  then show ?thesis
    by (simp add: js_def)
qed

lemma js_Nil_iff [simp]: "js s = [] \<longleftrightarrow> s = []"
  by (simp add: js_def)

lemma trim_edges: "\<not> edgeWs (trim s)"
proof (cases "trim s = []")
  case True
  then show ?thesis by (simp add: edgeWs_def)
next
  case False
  define t where "t = dropWhile isWhiteSpace s"
  define u where "u = dropWhile isWhiteSpace (rev t)"
  have tr: "trim s = rev u" by (simp add: trim_def t_def u_def)
  with False have u: "u \<noteq> []" by simp
  then have t: "t \<noteq> []" by (auto simp: u_def)
  have lastok: "\<not> isWhiteSpace (hd u)"
    using u unfolding u_def by (rule hd_dropWhile)
  obtain pre where pre: "rev t = pre @ u"
    unfolding u_def by (metis takeWhile_dropWhile_id)
  have "last u = last (rev t)" using pre u by simp
  also have "\<dots> = hd t" using t by (simp add: last_rev)
  finally have "last u = hd t" .
  moreover have "\<not> isWhiteSpace (hd t)"
    using t unfolding t_def by (rule hd_dropWhile)
  ultimately have "\<not> isWhiteSpace (last u)" by simp
  then show ?thesis
    using lastok u by (simp add: edgeWs_def tr hd_rev last_rev)
qed

lemma replaceWsRuns_head:
  "s \<noteq> [] \<Longrightarrow> \<not> isWhiteSpace (hd s) \<Longrightarrow> replaceWsRuns r s = hd s # replaceWsRuns r (tl s)"
  by (cases s) simp_all

lemma replaceWsRuns_last:
  "s \<noteq> [] \<Longrightarrow> \<not> isWhiteSpace (last s) \<Longrightarrow>
   replaceWsRuns r s \<noteq> [] \<and> last (replaceWsRuns r s) = last s"
proof (induction r s rule: replaceWsRuns.induct)
  case (1 r)
  then show ?case by simp
next
  case (2 r c cs)
  show ?case
  proof (cases "isWhiteSpace c")
    case True
    define d where "d = dropWhile isWhiteSpace cs"
    have cs: "cs \<noteq> []" using "2.prems" True by auto
    have lastcs: "\<not> isWhiteSpace (last cs)" using "2.prems" cs by simp
    have "cs = takeWhile isWhiteSpace cs @ d" by (simp add: d_def)
    have dne: "d \<noteq> []"
    proof
      assume "d = []"
      then have "\<forall>x \<in> set cs. isWhiteSpace x" by (simp add: d_def)
      then show False using lastcs cs last_in_set by blast
    qed
    have "last cs = last d"
      using dne \<open>cs = takeWhile isWhiteSpace cs @ d\<close> by (metis last_appendR)
    then have "replaceWsRuns r d \<noteq> [] \<and> last (replaceWsRuns r d) = last d"
      using "2.IH"(1) [OF True] dne lastcs by (simp add: d_def)
    then show ?thesis using True cs \<open>last cs = last d\<close> by (simp add: d_def)
  next
    case False
    show ?thesis
    proof (cases "cs = []")
      case True
      then show ?thesis using False by simp
    next
      case ne: False
      then have "replaceWsRuns r cs \<noteq> [] \<and> last (replaceWsRuns r cs) = last cs"
        using "2.IH"(2) [OF False] "2.prems" by simp
      then show ?thesis using False ne by simp
    qed
  qed
qed

lemma js_space: "js '' '' = [32]"
  by (simp add: js_def)

lemma replaceWsRuns_no_run: "\<not> hasWsRun (replaceWsRuns [32] s)"
proof (induction "[32] :: jstring" s rule: replaceWsRuns.induct)
  case 1
  then show ?case by simp
next
  case (2 c cs)
  show ?case
  proof (cases "isWhiteSpace c")
    case True
    define d where "d = dropWhile isWhiteSpace cs"
    have ih: "\<not> hasWsRun (replaceWsRuns [32] d)"
      using "2.hyps"(1) [OF True] by (simp add: d_def)
    show ?thesis
    proof (cases "d = []")
      case True
      then have "dropWhile isWhiteSpace cs = []" by (simp only: d_def)
      then show ?thesis using \<open>isWhiteSpace c\<close> by (simp del: dropWhile_eq_Nil_conv)
    next
      case False
      then have "\<not> isWhiteSpace (hd d)" unfolding d_def by (rule hd_dropWhile)
      then have "replaceWsRuns [32] d = hd d # replaceWsRuns [32] (tl d)"
        using False by (simp add: replaceWsRuns_head)
      then show ?thesis
        using ih \<open>isWhiteSpace c\<close> \<open>\<not> isWhiteSpace (hd d)\<close> by (simp add: d_def)
    qed
  next
    case False
    have ih: "\<not> hasWsRun (replaceWsRuns [32] cs)"
      using "2.hyps"(2) [OF False] .
    show ?thesis
    proof (cases "replaceWsRuns [32] cs")
      case Nil
      then show ?thesis using False by simp
    next
      case (Cons x xs)
      then show ?thesis using False ih by simp
    qed
  qed
qed

lemma replaceWsRuns_edges:
  "\<not> edgeWs s \<Longrightarrow> \<not> edgeWs (replaceWsRuns r s)"
proof (cases "s = []")
  case True
  then show ?thesis by (simp add: edgeWs_def)
next
  case False
  assume "\<not> edgeWs s"
  with False have h: "\<not> isWhiteSpace (hd s)" and l: "\<not> isWhiteSpace (last s)"
    by (simp_all add: edgeWs_def)
  have "replaceWsRuns r s = hd s # replaceWsRuns r (tl s)"
    using False h by (rule replaceWsRuns_head)
  then have "hd (replaceWsRuns r s) = hd s" by simp
  moreover have "last (replaceWsRuns r s) = last s"
    using replaceWsRuns_last [OF False l] by simp
  ultimately show ?thesis using h l by (simp add: edgeWs_def)
qed

lemma trim_decomp:
  "s = takeWhile isWhiteSpace s @ trim s @ rev (takeWhile isWhiteSpace (rev (dropWhile isWhiteSpace s)))"
proof -
  define t where "t = dropWhile isWhiteSpace s"
  have "trim s @ rev (takeWhile isWhiteSpace (rev t))
          = rev (takeWhile isWhiteSpace (rev t) @ dropWhile isWhiteSpace (rev t))"
    by (simp only: trim_def t_def rev_append)
  also have "\<dots> = t"
    by (simp only: takeWhile_dropWhile_id rev_rev_ident)
  finally have "t = trim s @ rev (takeWhile isWhiteSpace (rev t))" by (rule sym)
  moreover have "s = takeWhile isWhiteSpace s @ t" by (simp add: t_def)
  ultimately show ?thesis unfolding t_def by metis
qed


lemma textTrim_edges: "\<not> edgeWs (textTrim doc es)"
  by (simp add: textTrim_def trim_edges)

lemma set_collect: "y \<in> set (collect f xs) \<longleftrightarrow> (\<exists>x \<in> set xs. f x = Some y)"
  by (induction xs) (auto split: option.splits)

text \<open>
  C2 (as amended).  Every text extraction ends in \<open>trim\<close>, so its result neither starts
  nor ends with white space, and it is the element's text with exactly the leading and the
  trailing white space removed: white space inside the text is kept as it is.  This holds
  for the document title, for the text fields of the main page's news and schedule
  records, for the title of an announcement, and for the fields of the minimal scraper's
  sport page, whose title is such a text or else the sport's name.  Only the content of an
  announcement is passed through the replacement of white-space runs as well, and it alone
  has no two white-space code units in a row.
\<close>

theorem text_extraction_trimmed:
  "\<not> edgeWs (textTrim doc es) \<and>
   sel_text doc es = takeWhile isWhiteSpace (sel_text doc es) @ textTrim doc es
       @ rev (takeWhile isWhiteSpace (rev (dropWhile isWhiteSpace (sel_text doc es)))) \<and>
   (\<forall>a \<in> set (announcements doc). \<exists>t c.
       a = JObj [(js ''title'', JStr t), (js ''content'', JStr c)] \<and>
       \<not> edgeWs t \<and> \<not> edgeWs c \<and> \<not> hasWsRun c) \<and>
   (\<exists>t. obj_get (generalInfo env doc tr) (js ''title'') = JStr t \<and> \<not> edgeWs t) \<and>
   (\<forall>key \<in> {js ''title'', js ''date'', js ''summary''}.
       \<exists>t. obj_get (mainNewsCandidate doc el) key = JStr t \<and> \<not> edgeWs t) \<and>
   (\<forall>kv \<in> set (scheduleCandidate doc el). \<exists>t. snd kv = JStr t \<and> \<not> edgeWs t) \<and>
   (\<exists>t. obj_get (ws_sportInfo doc sport sportUrl) (js ''title'') = JStr t \<and>
        (t = sport \<or> \<not> edgeWs t)) \<and>
   (\<forall>v \<in> set (ws_matchTeams doc el). \<exists>t. v = JStr t \<and> \<not> edgeWs t) \<and>
   (\<forall>key \<in> {js ''result'', js ''date'', js ''location''}.
       \<exists>t. obj_get (ws_matchCandidate doc el) key = JStr t \<and> \<not> edgeWs t) \<and>
   (\<forall>kv \<in> set (ws_newsCandidate doc el). \<exists>t. snd kv = JStr t \<and> \<not> edgeWs t)"
proof -
  note a = textTrim_edges
  have e: "sel_text doc es = takeWhile isWhiteSpace (sel_text doc es) @ textTrim doc es
       @ rev (takeWhile isWhiteSpace (rev (dropWhile isWhiteSpace (sel_text doc es))))"
    unfolding textTrim_def by (rule trim_decomp)
  have c: "\<not> edgeWs (announcement_content doc element)" for element
    unfolding announcement_content_def by (rule replaceWsRuns_edges) (rule a)
  have d: "\<not> hasWsRun (announcement_content doc element)" for element
    by (simp add: announcement_content_def js_space replaceWsRuns_no_run)
  have t: "\<not> edgeWs (announcement_title doc element)" for element
    by (simp add: announcement_title_def a)
  have ann: "\<forall>a \<in> set (announcements doc). \<exists>t c.
       a = JObj [(js ''title'', JStr t), (js ''content'', JStr c)] \<and>
       \<not> edgeWs t \<and> \<not> edgeWs c \<and> \<not> hasWsRun c"
    using c d t by (auto simp: announcements_def announcement_def)
  have g: "\<exists>t. obj_get (generalInfo env doc tr) (js ''title'') = JStr t \<and> \<not> edgeWs t"
    by (simp add: generalInfo_def obj_get_def a)
  have n: "\<forall>key \<in> {js ''title'', js ''date'', js ''summary''}.
       \<exists>t. obj_get (mainNewsCandidate doc el) key = JStr t \<and> \<not> edgeWs t"
    by (simp add: mainNewsCandidate_def obj_get_def a)
  have s: "\<forall>kv \<in> set (scheduleCandidate doc el). \<exists>t. snd kv = JStr t \<and> \<not> edgeWs t"
    by (simp add: scheduleCandidate_def a)
  have w: "\<exists>t. obj_get (ws_sportInfo doc sport sportUrl) (js ''title'') = JStr t \<and>
        (t = sport \<or> \<not> edgeWs t)"
    by (simp add: ws_sportInfo_def obj_get_def orElse_def a)
  have m1: "\<forall>v \<in> set (ws_matchTeams doc el). \<exists>t. v = JStr t \<and> \<not> edgeWs t"
    by (auto simp: ws_matchTeams_def a)
  have m2: "\<forall>key \<in> {js ''result'', js ''date'', js ''location''}.
       \<exists>t. obj_get (ws_matchCandidate doc el) key = JStr t \<and> \<not> edgeWs t"
    by (simp add: ws_matchCandidate_def obj_get_def a)
  have nw: "\<forall>kv \<in> set (ws_newsCandidate doc el). \<exists>t. snd kv = JStr t \<and> \<not> edgeWs t"
    by (simp add: ws_newsCandidate_def a)
  show ?thesis
    using a [of doc es] e ann g n s w m1 m2 nw by blast
qed

lemma mainDoc_announcements:
  "announcements mainDoc =
     [JObj [(js ''title'', JStr (js ''Aviso  importante'')),
            (js ''content'', JStr (js ''Aviso importante Hoy''))]]"
  by code_simp

theorem text_extraction_trimmed_witness:
  "announcements mainDoc =
     [JObj [(js ''title'', JStr (js ''Aviso  importante'')),
            (js ''content'', JStr (js ''Aviso importante Hoy''))]] \<and>
   \<not> edgeWs (js ''Aviso  importante'') \<and>
   \<not> edgeWs (js ''Aviso importante Hoy'') \<and>
   \<not> hasWsRun (js ''Aviso importante Hoy'')"
proof -
  have "\<forall>a \<in> set (announcements mainDoc). \<exists>t c.
       a = JObj [(js ''title'', JStr t), (js ''content'', JStr c)] \<and>
       \<not> edgeWs t \<and> \<not> edgeWs c \<and> \<not> hasWsRun c"
    using text_extraction_trimmed [of mainDoc "[]" demoEnv "[]" 0 "[]" "[]"] by blast
  then obtain t c where
      "JObj [(js ''title'', JStr (js ''Aviso  importante'')),
             (js ''content'', JStr (js ''Aviso importante Hoy''))]
         = JObj [(js ''title'', JStr t), (js ''content'', JStr c)]"
      "\<not> edgeWs t" "\<not> edgeWs c" "\<not> hasWsRun c"
    unfolding mainDoc_announcements by auto
  then show ?thesis
    using mainDoc_announcements by simp
qed

text \<open>
  Stated for every text extraction, the absence of white-space runs fails.  In the result
  of the sample main page the title of the announcement and the title of the document
  keep the two spaces they have in the page; so does the title of the sample sport page
  in the minimal scraper.
\<close>

theorem text_extraction_run_counterexample:
  "getProp (fst (scrapeMainPage demoEnv [])) (js ''announcements'') =
     JArr [JObj [(js ''title'', JStr (js ''Aviso  importante'')),
                 (js ''content'', JStr (js ''Aviso importante Hoy''))]] \<and>
   hasWsRun (js ''Aviso  importante'') \<and>
   getProp (getProp (fst (scrapeMainPage demoEnv [])) (js ''generalInfo'')) (js ''title'')
     = JStr (js ''Juegos  2025'') \<and>
   hasWsRun (js ''Juegos  2025'') \<and>
   obj_get (ws_sportInfo pageDoc (js ''Ajedrez'') (baseUrl @ js ''ajedrez/'')) (js ''title'')
     = JStr (js ''Final  A'') \<and>
   hasWsRun (js ''Final  A'')"
  by code_simp

section \<open>Properties of the navigation links\<close>

lemma pushLink_alt:
  "pushLink acc link = (if linkOk link \<and> linkUrl link \<notin> linkUrl ` set acc then acc @ [link] else acc)"
proof -
  have "list_ex (\<lambda>l. obj_get l (js ''url'') = obj_get link (js ''url'')) acc
          \<longleftrightarrow> linkUrl link \<in> linkUrl ` set acc"
    unfolding list_ex_iff linkUrl_def image_iff by (rule bex_cong) auto
  then show ?thesis
    by (simp add: pushLink_def linkOk_def)
qed

lemma foldl_pushLink_inv:
  "distinct (map linkUrl acc) \<Longrightarrow> list_all linkOk acc \<Longrightarrow>
   distinct (map linkUrl (foldl pushLink acc links)) \<and> list_all linkOk (foldl pushLink acc links)"
proof (induction links arbitrary: acc)
  case Nil
  then show ?case by simp
next
  case (Cons link links)
  have "distinct (map linkUrl (pushLink acc link))" "list_all linkOk (pushLink acc link)"
    using Cons.prems by (simp_all add: pushLink_alt)
  then show ?case using Cons.IH by simp
qed

lemma foldl_pushLink_complete:
  "linkUrl ` set acc \<subseteq> linkUrl ` set (foldl pushLink acc links) \<and>
   (\<forall>l \<in> set links. linkOk l \<longrightarrow> linkUrl l \<in> linkUrl ` set (foldl pushLink acc links))"
proof (induction links arbitrary: acc)
  case Nil
  then show ?case by simp
next
  case (Cons link links)
  have a: "linkUrl ` set acc \<subseteq> linkUrl ` set (pushLink acc link)"
    by (auto simp: pushLink_alt)
  have b: "linkOk link \<Longrightarrow> linkUrl link \<in> linkUrl ` set (pushLink acc link)"
    by (auto simp: pushLink_alt)
  from Cons.IH [of "pushLink acc link"] a b show ?case
    by (simp add: subset_iff)
qed

text \<open>
  C10.  In both scrapers the collected navigation links have pairwise different urls and
  each has a non-empty text and a non-empty url: a link is pushed exactly when both are
  non-empty and no link collected before has the same url.  Every anchor with text and url
  is therefore represented by a collected link with its url.
\<close>

theorem navigationLinks_no_duplicate_url:
  "distinct (map linkUrl (navigationLinks env doc)) \<and>
   list_all linkOk (navigationLinks env doc) \<and>
   distinct (map linkUrl (ws_navigationLinks doc)) \<and>
   list_all linkOk (ws_navigationLinks doc) \<and>
   pushLink acc link =
     (if linkOk link \<and> linkUrl link \<notin> linkUrl ` set acc then acc @ [link] else acc) \<and>
   (\<forall>e \<in> set (root_select doc ''nav a, .menu a, .navigation a, .main-menu a'').
      linkOk (navLink env doc e) \<longrightarrow>
      linkUrl (navLink env doc e) \<in> linkUrl ` set (navigationLinks env doc)) \<and>
   (\<forall>e \<in> set (root_select doc ''nav a, .menu a, .navigation a'').
      linkOk (ws_navLink doc e) \<longrightarrow>
      linkUrl (ws_navLink doc e) \<in> linkUrl ` set (ws_navigationLinks doc))"
proof -
  have c: "\<forall>l \<in> set links. linkOk l \<longrightarrow> linkUrl l \<in> linkUrl ` set (foldl pushLink [] links)"
    for links
    using foldl_pushLink_complete [of "[]" links] by simp
  have c1: "\<forall>e \<in> set (root_select doc ''nav a, .menu a, .navigation a, .main-menu a'').
      linkOk (navLink env doc e) \<longrightarrow>
      linkUrl (navLink env doc e) \<in> linkUrl ` set (navigationLinks env doc)"
    unfolding navigationLinks_def using c by simp
  have c2: "\<forall>e \<in> set (root_select doc ''nav a, .menu a, .navigation a'').
      linkOk (ws_navLink doc e) \<longrightarrow>
      linkUrl (ws_navLink doc e) \<in> linkUrl ` set (ws_navigationLinks doc)"
    unfolding ws_navigationLinks_def using c by simp
  have "distinct (map linkUrl (foldl pushLink [] links)) \<and> list_all linkOk (foldl pushLink [] links)"
    for links
    by (rule foldl_pushLink_inv) simp_all
  then have d: "distinct (map linkUrl (navigationLinks env doc))"
      "list_all linkOk (navigationLinks env doc)"
      "distinct (map linkUrl (ws_navigationLinks doc))"
      "list_all linkOk (ws_navigationLinks doc)"
    unfolding navigationLinks_def ws_navigationLinks_def by simp_all
  show ?thesis
    using d c1 c2 pushLink_alt [of acc link] by blast
qed

lemma navDoc_links:
  "map linkUrl (navigationLinks demoEnv navDoc) = [JStr (js ''/''), JStr (js ''/futbol/'')]"
  by (simp add: navigationLinks_def navLink_def pushLink_def navDoc_def linkUrl_def obj_get_def
        textTrim_def trim_def attrOrEmpty_def orElse_def js_def isWhiteSpace_def)

theorem navigationLinks_no_duplicate_url_witness:
  "3 \<in> set (root_select navDoc ''nav a, .menu a, .navigation a, .main-menu a'') \<and>
   \<not> linkOk (navLink demoEnv navDoc 3) \<and>
   linkOk (navLink demoEnv navDoc 2) \<and>
   linkUrl (navLink demoEnv navDoc 2) \<in> linkUrl ` set (navigationLinks demoEnv navDoc) \<and>
   map linkUrl (navigationLinks demoEnv navDoc) = [JStr (js ''/''), JStr (js ''/futbol/'')] \<and>
   distinct (map linkUrl (navigationLinks demoEnv navDoc))"
proof -
  have a: "2 \<in> set (root_select navDoc ''nav a, .menu a, .navigation a, .main-menu a'')"
      "3 \<in> set (root_select navDoc ''nav a, .menu a, .navigation a, .main-menu a'')"
    by (simp_all add: navDoc_def)
  have b: "linkOk (navLink demoEnv navDoc 2)"
    by (simp add: linkOk_def navLink_def navDoc_def obj_get_def textTrim_def trim_def
          attrOrEmpty_def orElse_def js_def isWhiteSpace_def)
  have c: "\<not> linkOk (navLink demoEnv navDoc 3)"
    by (simp add: linkOk_def navLink_def navDoc_def obj_get_def textTrim_def trim_def
          attrOrEmpty_def orElse_def js_def isWhiteSpace_def)
  note t = navigationLinks_no_duplicate_url [of demoEnv navDoc "[]" "[]"]
  have "linkUrl (navLink demoEnv navDoc 2) \<in> linkUrl ` set (navigationLinks demoEnv navDoc)"
    using t a b by blast
  moreover have "distinct (map linkUrl (navigationLinks demoEnv navDoc))"
    using t by blast
  ultimately show ?thesis
    using a b c navDoc_links by blast
qed

section \<open>Properties of fetchWithRetry\<close>

lemma retryRounds_Suc: "tr @ retryRounds url (Suc k) = (tr @ [HttpGet url, Delay retryDelay]) @ retryRounds url k"
  by (simp add: retryRounds_def)

lemma fetchWithRetry_rounds:
  "\<exists>k \<le> nat retries.
     snd (fetchWithRetry env url retries tr) = tr @ retryRounds url k @ [HttpGet url] \<and>
     fst (fetchWithRetry env url retries tr) = httpGet env (tr @ retryRounds url k) url \<and>
     (\<forall>j < k. isl (httpGet env (tr @ retryRounds url j) url)) \<and>
     (isl (fst (fetchWithRetry env url retries tr)) \<longrightarrow> k = nat retries)"
proof (induction env url retries tr rule: fetchWithRetry.induct)
  case (1 env url retries tr)
  show ?case
  proof (cases "httpGet env tr url")
    case (Inr response)
    then have "fetchWithRetry env url retries tr = (Inr response, tr @ [HttpGet url])"
      by (subst fetchWithRetry.simps) simp
    then show ?thesis using Inr
      by (intro exI [of _ 0]) (simp add: retryRounds_def)
  next
    case (Inl error)
    show ?thesis
    proof (cases "retries \<le> 0")
      case True
      then have "fetchWithRetry env url retries tr = (Inl error, tr @ [HttpGet url])"
        using Inl by (subst fetchWithRetry.simps) simp
      then show ?thesis using Inl True
        by (intro exI [of _ 0]) (simp add: retryRounds_def)
    next
      case False
      let ?tr = "tr @ [HttpGet url, Delay retryDelay]"
      from "1.IH" [OF Inl False] obtain k where k: "k \<le> nat (retries - 1)"
        "snd (fetchWithRetry env url (retries - 1) ?tr) = ?tr @ retryRounds url k @ [HttpGet url]"
        "fst (fetchWithRetry env url (retries - 1) ?tr) = httpGet env (?tr @ retryRounds url k) url"
        "\<forall>j < k. isl (httpGet env (?tr @ retryRounds url j) url)"
        "isl (fst (fetchWithRetry env url (retries - 1) ?tr)) \<longrightarrow> k = nat (retries - 1)"
        by blast
      have unf: "fetchWithRetry env url retries tr = fetchWithRetry env url (retries - 1) ?tr"
        using Inl False by (subst fetchWithRetry.simps) simp
      have prev: "\<forall>j < Suc k. isl (httpGet env (tr @ retryRounds url j) url)"
      proof (intro allI impI)
        fix j assume "j < Suc k"
        show "isl (httpGet env (tr @ retryRounds url j) url)"
        proof (cases j)
          case 0
          then show ?thesis using Inl by (simp add: retryRounds_def)
        next
          case (Suc j')
          then have "j' < k" using \<open>j < Suc k\<close> by simp
          then show ?thesis using k(4) Suc by (simp only: retryRounds_Suc)
        qed
      qed
      have le: "Suc k \<le> nat retries" using k(1) False by linarith
      have ex: "isl (fst (fetchWithRetry env url retries tr)) \<longrightarrow> Suc k = nat retries"
        using k(5) False unf by auto
      have s2: "snd (fetchWithRetry env url retries tr) = tr @ retryRounds url (Suc k) @ [HttpGet url]"
        using k(2) unf by (simp add: retryRounds_def)
      have s3: "fst (fetchWithRetry env url retries tr) = httpGet env (tr @ retryRounds url (Suc k)) url"
        using k(3) unf by (simp only: retryRounds_Suc)
      show ?thesis
        using le prev ex s2 s3 by blast
    qed
  qed
qed

lemma retryRounds_gets:
  "length (filter (\<lambda>ev. ev = HttpGet url) (retryRounds url k @ [HttpGet url])) = Suc k"
  by (induction k) (simp_all add: retryRounds_def)

lemma demoEnv_atletismo: "httpGet demoEnv tr atletismoUrl = Inl timeoutError"
  by (simp add: demoEnv_def)

text \<open>
  C6.  From any point of a run, \<open>fetchWithRetry\<close> performs \<open>k + 1\<close> requests for the
  url, where \<open>k\<close> is at most the retry budget: the first \<open>k\<close> fail and each is followed
  by the same pause \<open>retryDelay\<close>, and the outcome of the last request is the result,
  whether a response or an error.  A call that fails has used the whole budget.  The default
  budget is 3 and the pause 2000 ms.
\<close>

theorem fetchWithRetry_bounded_fixed_delay:
  "maxRetries = 3 \<and> retryDelay = 2000 \<and>
   (\<exists>k \<le> nat retries.
      snd (fetchWithRetry env url retries tr) = tr @ retryRounds url k @ [HttpGet url] \<and>
      fst (fetchWithRetry env url retries tr) = httpGet env (tr @ retryRounds url k) url \<and>
      (\<forall>j < k. isl (httpGet env (tr @ retryRounds url j) url)) \<and>
      (isl (fst (fetchWithRetry env url retries tr)) \<longrightarrow> k = nat retries) \<and>
      length (filter (\<lambda>ev. ev = HttpGet url) (retryRounds url k @ [HttpGet url])) = Suc k \<and>
      Suc k \<le> 1 + nat retries)"
proof -
  obtain k where k: "k \<le> nat retries"
     "snd (fetchWithRetry env url retries tr) = tr @ retryRounds url k @ [HttpGet url]"
     "fst (fetchWithRetry env url retries tr) = httpGet env (tr @ retryRounds url k) url"
     "\<forall>j < k. isl (httpGet env (tr @ retryRounds url j) url)"
     "isl (fst (fetchWithRetry env url retries tr)) \<longrightarrow> k = nat retries"
    using fetchWithRetry_rounds [of retries env url tr] by blast
  have "Suc k \<le> 1 + nat retries" using k(1) by simp
  then have "\<exists>k \<le> nat retries.
      snd (fetchWithRetry env url retries tr) = tr @ retryRounds url k @ [HttpGet url] \<and>
      fst (fetchWithRetry env url retries tr) = httpGet env (tr @ retryRounds url k) url \<and>
      (\<forall>j < k. isl (httpGet env (tr @ retryRounds url j) url)) \<and>
      (isl (fst (fetchWithRetry env url retries tr)) \<longrightarrow> k = nat retries) \<and>
      length (filter (\<lambda>ev. ev = HttpGet url) (retryRounds url k @ [HttpGet url])) = Suc k \<and>
      Suc k \<le> 1 + nat retries"
    using k retryRounds_gets [of url k] by blast
  moreover have "maxRetries = 3" "retryDelay = 2000"
    by (simp_all add: maxRetries_def retryDelay_def)
  ultimately show ?thesis by blast
qed

theorem fetchWithRetry_bounded_fixed_delay_witness:
  "fst (fetchWithRetry demoEnv atletismoUrl maxRetries [])
     = Inl timeoutError \<and>
   snd (fetchWithRetry demoEnv atletismoUrl maxRetries [])
     = [HttpGet atletismoUrl, Delay 2000, HttpGet atletismoUrl, Delay 2000,
        HttpGet atletismoUrl, Delay 2000, HttpGet atletismoUrl]"
proof -
  obtain k where k:
     "snd (fetchWithRetry demoEnv atletismoUrl maxRetries [])
        = [] @ retryRounds atletismoUrl k @ [HttpGet atletismoUrl]"
     "fst (fetchWithRetry demoEnv atletismoUrl maxRetries [])
        = httpGet demoEnv ([] @ retryRounds atletismoUrl k) atletismoUrl"
     "isl (fst (fetchWithRetry demoEnv atletismoUrl maxRetries [])) \<longrightarrow> k = nat maxRetries"
    using fetchWithRetry_bounded_fixed_delay [of maxRetries demoEnv atletismoUrl "[]"] by blast
  have f: "fst (fetchWithRetry demoEnv atletismoUrl maxRetries [])
     = Inl timeoutError"
    using k(2) by (simp only: demoEnv_atletismo)
  then have "k = 3" using k(3) by (simp add: maxRetries_def)
  then have "snd (fetchWithRetry demoEnv atletismoUrl maxRetries [])
     = [HttpGet atletismoUrl, Delay 2000, HttpGet atletismoUrl, Delay 2000,
        HttpGet atletismoUrl, Delay 2000, HttpGet atletismoUrl]"
    using k(1) by (simp add: retryRounds_def retryDelay_def numeral_3_eq_3)
  then show ?thesis using f by simp
qed

section \<open>Properties of the run\<close>

lemma obj_set_fresh: "key \<notin> set (obj_keys obj) \<Longrightarrow> obj_set obj key v = obj @ [(key, v)]"
  by (simp add: obj_set_def obj_keys_def)

lemma scrapeSportPage_page:
  "fst (scrapeSportPage env sp tr) = errorPage sp (caughtMessage env sp tr)"
  by (simp add: scrapeSportPage_eq caughtMessage_def split: prod.splits sum.splits)

lemma fetchWithRetry_prefix: "prefix tr (snd (fetchWithRetry env url retries tr))"
  using fetchWithRetry_rounds [of retries env url tr] by auto

lemma saveHtmlForDebugging_prefix: "prefix tr (saveHtmlForDebugging env sportName html tr)"
  by (simp add: saveHtmlForDebugging_def ensureDirectoryExists_def fsDo_def Let_def
        split: option.splits)

lemma scrapeSportPage_prefix:
  "prefix (snd (fetchWithRetry env (sportUrlOf sp) maxRetries tr)) (snd (scrapeSportPage env sp tr))"
  by (simp add: scrapeSportPage_eq saveHtmlForDebugging_prefix split: prod.splits sum.splits)

lemma prefix_trans3: "prefix a b \<Longrightarrow> prefix b c \<Longrightarrow> prefix a c"
  by (auto simp: prefix_def)

lemma scrapeSports_pages:
  "distinct (map sport_name sports) \<Longrightarrow>
   set (map sport_name sports) \<inter> set (obj_keys acc) = {} \<Longrightarrow>
   \<exists>msgs. length msgs = length sports \<and>
     fst (scrapeSports env sports acc tr)
       = acc @ map2 (\<lambda>s m. (sport_name s, errorPage s m)) sports msgs \<and>
     prefix tr (snd (scrapeSports env sports acc tr)) \<and>
     (\<forall>i < length sports. \<exists>trs.
         prefix (snd (fetchWithRetry env (sportUrlOf (sports ! i)) maxRetries trs))
                (snd (scrapeSports env sports acc tr)) \<and>
         msgs ! i = caughtMessage env (sports ! i) trs)"
proof (induction sports arbitrary: acc tr)
  case Nil
  then show ?case by simp
next
  case (Cons sp rest)
  obtain page tr1 where p: "scrapeSportPage env sp tr = (page, tr1)"
    by (cases "scrapeSportPage env sp tr")
  have page: "page = errorPage sp (caughtMessage env sp tr)"
    using scrapeSportPage_page [of env sp tr] p by simp
  define acc1 where "acc1 = obj_set acc (sport_name sp) page"
  define tr2 where "tr2 = tr1 @ [Delay requestDelay]"
  have unf: "scrapeSports env (sp # rest) acc tr = scrapeSports env rest acc1 tr2"
    by (simp add: p acc1_def tr2_def)
  have notin: "sport_name sp \<notin> set (obj_keys acc)"
    using Cons.prems(2) by auto
  have acc1: "acc1 = acc @ [(sport_name sp, page)]"
    unfolding acc1_def using notin by (rule obj_set_fresh)
  have d: "distinct (map sport_name rest)" using Cons.prems(1) by simp
  have disj: "set (map sport_name rest) \<inter> set (obj_keys acc1) = {}"
    using Cons.prems by (auto simp: acc1 obj_keys_def)
  from Cons.IH [OF d disj, of tr2] obtain msgs where m:
      "length msgs = length rest"
      "fst (scrapeSports env rest acc1 tr2)
         = acc1 @ map2 (\<lambda>s m. (sport_name s, errorPage s m)) rest msgs"
      "prefix tr2 (snd (scrapeSports env rest acc1 tr2))"
      "\<forall>i < length rest. \<exists>trs.
         prefix (snd (fetchWithRetry env (sportUrlOf (rest ! i)) maxRetries trs))
                (snd (scrapeSports env rest acc1 tr2)) \<and>
         msgs ! i = caughtMessage env (rest ! i) trs"
    by blast
  let ?final = "snd (scrapeSports env rest acc1 tr2)"
  have f1: "prefix (snd (fetchWithRetry env (sportUrlOf sp) maxRetries tr)) tr1"
    using scrapeSportPage_prefix [of env sp tr] p by simp
  have t12: "prefix tr1 tr2" by (simp add: tr2_def)
  have f2: "prefix (snd (fetchWithRetry env (sportUrlOf sp) maxRetries tr)) ?final"
    using f1 t12 m(3) by (blast intro: prefix_trans3)
  have f3: "prefix tr ?final"
    using fetchWithRetry_prefix [of tr env "sportUrlOf sp" maxRetries] f2 by (blast intro: prefix_trans3)
  let ?msgs = "caughtMessage env sp tr # msgs"
  have a: "length ?msgs = length (sp # rest)" using m(1) by simp
  have b: "fst (scrapeSports env rest acc1 tr2)
       = acc @ map2 (\<lambda>s m. (sport_name s, errorPage s m)) (sp # rest) ?msgs"
    using m(2) by (simp add: acc1 page)
  have c: "\<forall>i < length (sp # rest). \<exists>trs.
         prefix (snd (fetchWithRetry env (sportUrlOf ((sp # rest) ! i)) maxRetries trs)) ?final \<and>
         ?msgs ! i = caughtMessage env ((sp # rest) ! i) trs"
  proof (intro allI impI)
    fix i assume i: "i < length (sp # rest)"
    show "\<exists>trs. prefix (snd (fetchWithRetry env (sportUrlOf ((sp # rest) ! i)) maxRetries trs)) ?final \<and>
         ?msgs ! i = caughtMessage env ((sp # rest) ! i) trs"
    proof (cases i)
      case 0
      then show ?thesis using f2 by auto
    next
      case (Suc j)
      then have "j < length rest" using i by simp
      then show ?thesis using m(4) Suc by simp
    qed
  qed
  show ?case
    unfolding unf using a b c f3 by blast
qed

lemma obj_get_pages:
  "distinct (map sport_name sports) \<Longrightarrow> length msgs = length sports \<Longrightarrow> i < length sports \<Longrightarrow>
   obj_get (map2 (\<lambda>s m. (sport_name s, P s m)) sports msgs) (sport_name (sports ! i))
     = P (sports ! i) (msgs ! i)"
proof (induction sports arbitrary: msgs i)
  case Nil
  then show ?case by simp
next
  case (Cons sp rest)
  obtain m ms where msgs: "msgs = m # ms" using Cons.prems(2) by (cases msgs) auto
  show ?case
  proof (cases i)
    case 0
    then show ?thesis by (simp add: msgs obj_get_def)
  next
    case (Suc j)
    then have j: "j < length rest" using Cons.prems(3) by simp
    then have "sport_name (rest ! j) \<in> set (map sport_name rest)" by simp
    then have ne: "sport_name (rest ! j) \<noteq> sport_name sp" using Cons.prems(1) by auto
    have "obj_get (map2 (\<lambda>s m. (sport_name s, P s m)) rest ms) (sport_name (rest ! j))
        = P (rest ! j) (ms ! j)"
      using Cons.IH [of ms j] Cons.prems j by (simp add: msgs)
    then show ?thesis using ne by (simp add: msgs Suc obj_get_def)
  qed
qed

lemma summary_sports:
  assumes d: "distinct (map sport_name sports)" and l: "length msgs = length sports"
  shows "map (\<lambda>sportName. summaryEntry sportName
             (obj_get (map2 (\<lambda>s m. (sport_name s, errorPage s m)) sports msgs) sportName))
           (obj_keys (map2 (\<lambda>s m. (sport_name s, errorPage s m)) sports msgs))
       = map2 (\<lambda>s m. JObj [(js ''name'', JStr (sport_name s)),
                           (js ''resultsCount'', JNum 0),
                           (js ''matchesCount'', JNum 0),
                           (js ''hasStandings'', JBool False),
                           (js ''hasMedals'', JBool False),
                           (js ''error'', JStr m)]) sports msgs"
proof (rule nth_equalityI)
  have keys: "obj_keys (map2 (\<lambda>s m. (sport_name s, errorPage s m)) sports msgs) = map sport_name sports"
    using l by (induction sports msgs rule: list_induct2') (simp_all add: obj_keys_def)
  show "length (map (\<lambda>sportName. summaryEntry sportName
             (obj_get (map2 (\<lambda>s m. (sport_name s, errorPage s m)) sports msgs) sportName))
           (obj_keys (map2 (\<lambda>s m. (sport_name s, errorPage s m)) sports msgs)))
      = length (map2 (\<lambda>s m. JObj [(js ''name'', JStr (sport_name s)),
                           (js ''resultsCount'', JNum 0),
                           (js ''matchesCount'', JNum 0),
                           (js ''hasStandings'', JBool False),
                           (js ''hasMedals'', JBool False),
                           (js ''error'', JStr m)]) sports msgs)"
    using l by (simp add: keys)
  fix i
  assume "i < length (map (\<lambda>sportName. summaryEntry sportName
             (obj_get (map2 (\<lambda>s m. (sport_name s, errorPage s m)) sports msgs) sportName))
           (obj_keys (map2 (\<lambda>s m. (sport_name s, errorPage s m)) sports msgs)))"
  then have i: "i < length sports" by (simp add: keys)
  have g: "obj_get (map2 (\<lambda>s m. (sport_name s, errorPage s m)) sports msgs) (sport_name (sports ! i))
      = errorPage (sports ! i) (msgs ! i)"
    using d l i by (rule obj_get_pages)
  have e: "summaryEntry name (errorPage s m) =
       JObj [(js ''name'', JStr name),
             (js ''resultsCount'', JNum 0),
             (js ''matchesCount'', JNum 0),
             (js ''hasStandings'', JBool False),
             (js ''hasMedals'', JBool False),
             (js ''error'', JStr m)]" for name s m
    by (simp add: summaryEntry_def errorPage_def obj_get_def jsOr_def)
  show "map (\<lambda>sportName. summaryEntry sportName
             (obj_get (map2 (\<lambda>s m. (sport_name s, errorPage s m)) sports msgs) sportName))
           (obj_keys (map2 (\<lambda>s m. (sport_name s, errorPage s m)) sports msgs)) ! i
      = map2 (\<lambda>s m. JObj [(js ''name'', JStr (sport_name s)),
                           (js ''resultsCount'', JNum 0),
                           (js ''matchesCount'', JNum 0),
                           (js ''hasStandings'', JBool False),
                           (js ''hasMedals'', JBool False),
                           (js ''error'', JStr m)]) sports msgs ! i"
    using i l by (simp add: keys g e)
qed

lemma SPORTS_names:
  "map sport_name SPORTS =
     [js ''F'' @ [0xFA] @ js ''tbol'', js ''Atletismo'', js ''Baloncesto'', js ''Ajedrez'',
      js ''Voleibol'', js ''Tenis de Mesa'', js ''B'' @ [0xE9] @ js ''isbol'',
      js ''F'' @ [0xFA] @ js ''tbol Sala'']"
  by (simp add: SPORTS_def)

lemma SPORTS_distinct: "distinct (map sport_name SPORTS)"
  unfolding SPORTS_names by (simp add: js_def)

lemma ensureDirectoryExists_ok:
  assumes "\<And>e. fsError env tr (Mkdir dirPath) = Some e \<Longrightarrow> err_code e = js ''EEXIST''"
  shows "ensureDirectoryExists env dirPath tr = (None, tr @ [Mkdir dirPath])"
  using assms by (cases "fsError env tr (Mkdir dirPath)") (simp_all add: ensureDirectoryExists_def fsDo_def)

lemma saveToFile_trace:
  "snd (saveToFile env filename d tr) = tr @ [WriteFile (pathJoin outputDir filename) (Json d)]"
  by (cases "fsError env tr (WriteFile (pathJoin outputDir filename) (Json d))")
     (simp_all add: saveToFile_def fsDo_def)

lemma runScraper_ok:
  assumes mk: "\<And>tr e. fsError env tr (Mkdir outputDir) = Some e \<Longrightarrow> err_code e = js ''EEXIST''"
      and lg: "\<And>tr text. fsError env tr (AppendFile logFile text) = None"
  shows "\<exists>mainPage tr3 tr4 tr5.
      fst (runScraper env tr0)
        = Inr (summaryOf env mainPage (fst (scrapeSports env SPORTS [] tr3)) tr5) \<and>
      WriteFile (pathJoin outputDir (js ''summary.json''))
          (Json (summaryOf env mainPage (fst (scrapeSports env SPORTS [] tr3)) tr5))
        \<in> set (snd (runScraper env tr0)) \<and>
      WriteFile (pathJoin outputDir (js ''all_data.json''))
          (Json (allData env mainPage (fst (scrapeSports env SPORTS [] tr3)) tr4))
        \<in> set (snd (runScraper env tr0)) \<and>
      prefix (snd (scrapeSports env SPORTS [] tr3)) (snd (runScraper env tr0))"
proof -
  let ?tr1 = "tr0 @ [Mkdir outputDir]"
  let ?ev = "AppendFile logFile (js ''Scraping started at: '' @ isoNow env ?tr1 @ [10])"
  let ?tr2 = "?tr1 @ [?ev]"
  obtain mainPage tr3' where m: "scrapeMainPage env ?tr2 = (mainPage, tr3')"
    by (cases "scrapeMainPage env ?tr2")
  let ?tr3 = "tr3' @ [Delay requestDelay]"
  obtain sportsData tr4 where sd: "scrapeSports env SPORTS [] ?tr3 = (sportsData, tr4)"
    by (cases "scrapeSports env SPORTS [] ?tr3")
  let ?a = "allData env mainPage sportsData tr4"
  let ?tr5 = "snd (saveToFile env (js ''all_data.json'') ?a tr4)"
  let ?summary = "summaryOf env mainPage sportsData ?tr5"
  let ?tr6 = "snd (saveToFile env (js ''summary.json'') ?summary ?tr5)"
  let ?ev2 = "AppendFile logFile
      (js ''Scraping completed at: '' @ isoNow env ?tr6 @ [10]
       @ js ''Total sports scraped: '' @ showNat (length (obj_keys sportsData)) @ [10]
       @ js ''Results saved to: '' @ outputDir @ [10, 10])"
  have e1: "ensureDirectoryExists env outputDir tr0 = (None, ?tr1)"
    by (rule ensureDirectoryExists_ok) (rule mk)
  have e2: "fsDo env ?ev ?tr1 = (None, ?tr2)"
    by (simp only: fsDo_def lg)
  have e7: "fsDo env ?ev2 ?tr6 = (None, ?tr6 @ [?ev2])"
    by (simp only: fsDo_def lg)
  have run: "runScraper env tr0 = (Inr ?summary, ?tr6 @ [?ev2])"
    by (simp only: runScraper_def e1 e2 m sd e7 Let_def prod.case option.case)
  have t5: "?tr5 = tr4 @ [WriteFile (pathJoin outputDir (js ''all_data.json'')) (Json ?a)]"
    by (rule saveToFile_trace)
  have t6: "?tr6 = ?tr5 @ [WriteFile (pathJoin outputDir (js ''summary.json'')) (Json ?summary)]"
    by (rule saveToFile_trace)
  have s1: "fst (scrapeSports env SPORTS [] ?tr3) = sportsData"
    by (simp only: sd fst_conv)
  have s2: "snd (scrapeSports env SPORTS [] ?tr3) = tr4"
    by (simp only: sd snd_conv)
  have "fst (runScraper env tr0) = Inr (summaryOf env mainPage (fst (scrapeSports env SPORTS [] ?tr3)) ?tr5)"
    by (simp only: run s1 fst_conv)
  moreover have "WriteFile (pathJoin outputDir (js ''summary.json''))
          (Json (summaryOf env mainPage (fst (scrapeSports env SPORTS [] ?tr3)) ?tr5))
        \<in> set (snd (runScraper env tr0))"
    unfolding run s1 snd_conv by (subst t6) simp
  moreover have "WriteFile (pathJoin outputDir (js ''all_data.json''))
          (Json (allData env mainPage (fst (scrapeSports env SPORTS [] ?tr3)) tr4))
        \<in> set (snd (runScraper env tr0))"
    unfolding run s1 snd_conv by (subst t6, subst t5) simp
  moreover have "prefix (snd (scrapeSports env SPORTS [] ?tr3)) (snd (runScraper env tr0))"
    unfolding run s2 snd_conv by (subst t6, subst t5) simp
  ultimately show ?thesis by blast
qed

text \<open>
  C5.  When the fetch of a sport page has failed after its retries, \<open>scrapeSportPage\<close>
  returns the placeholder whose \<open>sportInfo\<close> holds just the name, the url and the message
  of the error, and it leaves no event in the trace besides those of the fetch.  Whatever
  the network does, a run whose output directory and log file are writable ends normally
  and returns the summary, which it has written to \<open>summary.json\<close>; it has also written
  \<open>all_data.json\<close>.  The aggregate in \<open>all_data.json\<close> holds one page per sport of
  \<open>SPORTS\<close>, in order, each of them a placeholder, and the summary lists every sport, in
  order, with \<open>resultsCount\<close> 0 and the placeholder's message as its \<open>error\<close>.  Every
  sport was fetched during the run, and the message recorded for a sport whose fetch
  failed is that of the error the fetch ended with.
\<close>

theorem sport_fetch_failure_is_tolerated:
  assumes mk: "\<forall>tr e. fsError env tr (Mkdir outputDir) = Some e \<longrightarrow> err_code e = js ''EEXIST''"
      and lg: "\<forall>tr text. fsError env tr (AppendFile logFile text) = None"
  shows
   "(fst (fetchWithRetry env (sportUrlOf sp) maxRetries tr) = Inl error \<longrightarrow>
       scrapeSportPage env sp tr =
         (JObj [(js ''sportInfo'',
                 JObj [(js ''name'', JStr (sport_name sp)),
                       (js ''url'', JStr (baseUrl @ urlPath sp @ js ''/'')),
                       (js ''error'', JStr (err_message error))])],
          snd (fetchWithRetry env (sportUrlOf sp) maxRetries tr))) \<and>
    (\<exists>mainPage eventTitle lastUpdated scrapedAt messages.
       length messages = length SPORTS \<and>
       fst (runScraper env tr0) =
         Inr (JObj [(js ''eventTitle'', eventTitle),
                    (js ''lastUpdated'', JStr lastUpdated),
                    (js ''sports'',
                     JArr (map2 (\<lambda>s message.
                              JObj [(js ''name'', JStr (sport_name s)),
                                    (js ''resultsCount'', JNum 0),
                                    (js ''matchesCount'', JNum 0),
                                    (js ''hasStandings'', JBool False),
                                    (js ''hasMedals'', JBool False),
                                    (js ''error'', JStr message)]) SPORTS messages))]) \<and>
       (\<exists>summary. fst (runScraper env tr0) = Inr summary \<and>
          WriteFile (pathJoin outputDir (js ''summary.json'')) (Json summary)
            \<in> set (snd (runScraper env tr0))) \<and>
       WriteFile (pathJoin outputDir (js ''all_data.json''))
         (Json (JObj [(js ''mainPage'', mainPage),
                      (js ''sports'',
                       JObj (map2 (\<lambda>s message.
                               (sport_name s,
                                JObj [(js ''sportInfo'',
                                       JObj [(js ''name'', JStr (sport_name s)),
                                             (js ''url'', JStr (baseUrl @ urlPath s @ js ''/'')),
                                             (js ''error'', JStr message)])])) SPORTS messages)),
                      (js ''metadata'',
                       JObj [(js ''scrapedAt'', JStr scrapedAt),
                             (js ''version'', JStr (js ''1.0.0'')),
                             (js ''config'',
                              JObj [(js ''baseUrl'', JStr baseUrl),
                                    (js ''sportsScraped'',
                                     JArr (map (\<lambda>s. JStr (sport_name s)) SPORTS))])])]))
         \<in> set (snd (runScraper env tr0)) \<and>
       (\<forall>i < length SPORTS. \<exists>trs.
           prefix (snd (fetchWithRetry env (sportUrlOf (SPORTS ! i)) maxRetries trs))
                  (snd (runScraper env tr0)) \<and>
           messages ! i =
             (case fst (fetchWithRetry env (sportUrlOf (SPORTS ! i)) maxRetries trs) of
                Inl err \<Rightarrow> err_message err
              | Inr html \<Rightarrow> js ''element.find is not a function'')))"
proof -
  have "\<exists>mainPage tr3 tr4 tr5.
      fst (runScraper env tr0)
        = Inr (summaryOf env mainPage (fst (scrapeSports env SPORTS [] tr3)) tr5) \<and>
      WriteFile (pathJoin outputDir (js ''summary.json''))
          (Json (summaryOf env mainPage (fst (scrapeSports env SPORTS [] tr3)) tr5))
        \<in> set (snd (runScraper env tr0)) \<and>
      WriteFile (pathJoin outputDir (js ''all_data.json''))
          (Json (allData env mainPage (fst (scrapeSports env SPORTS [] tr3)) tr4))
        \<in> set (snd (runScraper env tr0)) \<and>
      prefix (snd (scrapeSports env SPORTS [] tr3)) (snd (runScraper env tr0))"
    by (rule runScraper_ok) (simp_all add: mk lg)
  then obtain mainPage tr3 tr4 tr5 where r:
      "fst (runScraper env tr0)
        = Inr (summaryOf env mainPage (fst (scrapeSports env SPORTS [] tr3)) tr5)"
      "WriteFile (pathJoin outputDir (js ''summary.json''))
          (Json (summaryOf env mainPage (fst (scrapeSports env SPORTS [] tr3)) tr5))
        \<in> set (snd (runScraper env tr0))"
      "WriteFile (pathJoin outputDir (js ''all_data.json''))
          (Json (allData env mainPage (fst (scrapeSports env SPORTS [] tr3)) tr4))
        \<in> set (snd (runScraper env tr0))"
      "prefix (snd (scrapeSports env SPORTS [] tr3)) (snd (runScraper env tr0))"
    by blast
  have "\<exists>msgs. length msgs = length SPORTS \<and>
     fst (scrapeSports env SPORTS [] tr3)
       = [] @ map2 (\<lambda>s m. (sport_name s, errorPage s m)) SPORTS msgs \<and>
     prefix tr3 (snd (scrapeSports env SPORTS [] tr3)) \<and>
     (\<forall>i < length SPORTS. \<exists>trs.
         prefix (snd (fetchWithRetry env (sportUrlOf (SPORTS ! i)) maxRetries trs))
                (snd (scrapeSports env SPORTS [] tr3)) \<and>
         msgs ! i = caughtMessage env (SPORTS ! i) trs)"
    by (rule scrapeSports_pages) (simp_all add: SPORTS_distinct obj_keys_def)
  then obtain msgs where m:
      "length msgs = length SPORTS"
      "fst (scrapeSports env SPORTS [] tr3) = map2 (\<lambda>s m. (sport_name s, errorPage s m)) SPORTS msgs"
      "\<forall>i < length SPORTS. \<exists>trs.
         prefix (snd (fetchWithRetry env (sportUrlOf (SPORTS ! i)) maxRetries trs))
                (snd (scrapeSports env SPORTS [] tr3)) \<and>
         msgs ! i = caughtMessage env (SPORTS ! i) trs"
    by auto
  let ?pages = "map2 (\<lambda>s m. (sport_name s, errorPage s m)) SPORTS msgs"
  let ?entries = "map2 (\<lambda>s message.
                              JObj [(js ''name'', JStr (sport_name s)),
                                    (js ''resultsCount'', JNum 0),
                                    (js ''matchesCount'', JNum 0),
                                    (js ''hasStandings'', JBool False),
                                    (js ''hasMedals'', JBool False),
                                    (js ''error'', JStr message)]) SPORTS msgs"
  have sum: "summaryOf env mainPage ?pages tr5 =
         JObj [(js ''eventTitle'', jsOr (getProp (getProp mainPage (js ''generalInfo'')) (js ''title''))
                                    (JStr (js ''Juegos Nacionales Salesianos 2025''))),
               (js ''lastUpdated'', JStr (isoNow env tr5)),
               (js ''sports'', JArr ?entries)]"
    unfolding summaryOf_def
    by (simp only: summary_sports [OF SPORTS_distinct m(1)])
  have pages: "?pages = map2 (\<lambda>s message.
                               (sport_name s,
                                JObj [(js ''sportInfo'',
                                       JObj [(js ''name'', JStr (sport_name s)),
                                             (js ''url'', JStr (baseUrl @ urlPath s @ js ''/'')),
                                             (js ''error'', JStr message)])])) SPORTS msgs"
    by (simp add: errorPage_def sportUrlOf_def)
  have all: "allData env mainPage ?pages tr4 =
      JObj [(js ''mainPage'', mainPage),
                      (js ''sports'',
                       JObj (map2 (\<lambda>s message.
                               (sport_name s,
                                JObj [(js ''sportInfo'',
                                       JObj [(js ''name'', JStr (sport_name s)),
                                             (js ''url'', JStr (baseUrl @ urlPath s @ js ''/'')),
                                             (js ''error'', JStr message)])])) SPORTS msgs)),
                      (js ''metadata'',
                       JObj [(js ''scrapedAt'', JStr (isoNow env tr4)),
                             (js ''version'', JStr (js ''1.0.0'')),
                             (js ''config'',
                              JObj [(js ''baseUrl'', JStr baseUrl),
                                    (js ''sportsScraped'',
                                     JArr (map (\<lambda>s. JStr (sport_name s)) SPORTS))])])]"
    unfolding allData_def by (simp only: pages)
  have cm: "\<forall>i < length SPORTS. \<exists>trs.
           prefix (snd (fetchWithRetry env (sportUrlOf (SPORTS ! i)) maxRetries trs))
                  (snd (runScraper env tr0)) \<and>
           msgs ! i =
             (case fst (fetchWithRetry env (sportUrlOf (SPORTS ! i)) maxRetries trs) of
                Inl err \<Rightarrow> err_message err
              | Inr html \<Rightarrow> js ''element.find is not a function'')"
  proof (intro allI impI)
    fix i assume "i < length SPORTS"
    then obtain trs where t:
        "prefix (snd (fetchWithRetry env (sportUrlOf (SPORTS ! i)) maxRetries trs))
                (snd (scrapeSports env SPORTS [] tr3))"
        "msgs ! i = caughtMessage env (SPORTS ! i) trs"
      using m(3) by blast
    have "prefix (snd (fetchWithRetry env (sportUrlOf (SPORTS ! i)) maxRetries trs))
                  (snd (runScraper env tr0))"
      using t(1) r(4) by (rule prefix_trans3)
    then show "\<exists>trs.
           prefix (snd (fetchWithRetry env (sportUrlOf (SPORTS ! i)) maxRetries trs))
                  (snd (runScraper env tr0)) \<and>
           msgs ! i =
             (case fst (fetchWithRetry env (sportUrlOf (SPORTS ! i)) maxRetries trs) of
                Inl err \<Rightarrow> err_message err
              | Inr html \<Rightarrow> js ''element.find is not a function'')"
      using t(2) unfolding caughtMessage_def findTypeErrorMessage_def
      by (intro exI [of _ trs]) simp
  qed
  have run: "\<exists>mainPage eventTitle lastUpdated scrapedAt messages.
       length messages = length SPORTS \<and>
       fst (runScraper env tr0) =
         Inr (JObj [(js ''eventTitle'', eventTitle),
                    (js ''lastUpdated'', JStr lastUpdated),
                    (js ''sports'',
                     JArr (map2 (\<lambda>s message.
                              JObj [(js ''name'', JStr (sport_name s)),
                                    (js ''resultsCount'', JNum 0),
                                    (js ''matchesCount'', JNum 0),
                                    (js ''hasStandings'', JBool False),
                                    (js ''hasMedals'', JBool False),
                                    (js ''error'', JStr message)]) SPORTS messages))]) \<and>
       (\<exists>summary. fst (runScraper env tr0) = Inr summary \<and>
          WriteFile (pathJoin outputDir (js ''summary.json'')) (Json summary)
            \<in> set (snd (runScraper env tr0))) \<and>
       WriteFile (pathJoin outputDir (js ''all_data.json''))
         (Json (JObj [(js ''mainPage'', mainPage),
                      (js ''sports'',
                       JObj (map2 (\<lambda>s message.
                               (sport_name s,
                                JObj [(js ''sportInfo'',
                                       JObj [(js ''name'', JStr (sport_name s)),
                                             (js ''url'', JStr (baseUrl @ urlPath s @ js ''/'')),
                                             (js ''error'', JStr message)])])) SPORTS messages)),
                      (js ''metadata'',
                       JObj [(js ''scrapedAt'', JStr scrapedAt),
                             (js ''version'', JStr (js ''1.0.0'')),
                             (js ''config'',
                              JObj [(js ''baseUrl'', JStr baseUrl),
                                    (js ''sportsScraped'',
                                     JArr (map (\<lambda>s. JStr (sport_name s)) SPORTS))])])]))
         \<in> set (snd (runScraper env tr0)) \<and>
       (\<forall>i < length SPORTS. \<exists>trs.
           prefix (snd (fetchWithRetry env (sportUrlOf (SPORTS ! i)) maxRetries trs))
                  (snd (runScraper env tr0)) \<and>
           messages ! i =
             (case fst (fetchWithRetry env (sportUrlOf (SPORTS ! i)) maxRetries trs) of
                Inl err \<Rightarrow> err_message err
              | Inr html \<Rightarrow> js ''element.find is not a function''))"
    using m(1) r(1,2,3) [unfolded m(2) sum all] cm by blast
  have fail: "fst (fetchWithRetry env (sportUrlOf sp) maxRetries tr) = Inl error \<longrightarrow>
       scrapeSportPage env sp tr =
         (JObj [(js ''sportInfo'',
                 JObj [(js ''name'', JStr (sport_name sp)),
                       (js ''url'', JStr (baseUrl @ urlPath sp @ js ''/'')),
                       (js ''error'', JStr (err_message error))])],
          snd (fetchWithRetry env (sportUrlOf sp) maxRetries tr))"
    by (cases "fetchWithRetry env (sportUrlOf sp) maxRetries tr")
       (simp add: scrapeSportPage_eq errorPage_def sportUrlOf_def)
  show ?thesis
    using fail run by (rule conjI)
qed

lemma demoEnv_fetch_atletismo:
  "fst (fetchWithRetry demoEnv atletismoUrl retries trs) = Inl timeoutError"
proof -
  obtain k where "fst (fetchWithRetry demoEnv atletismoUrl retries trs)
      = httpGet demoEnv (trs @ retryRounds atletismoUrl k) atletismoUrl"
    using fetchWithRetry_rounds [of retries demoEnv atletismoUrl trs] by blast
  then show ?thesis
    by (simp only: demoEnv_atletismo)
qed

lemma demoEnv_fetch_other:
  assumes "url \<noteq> atletismoUrl"
  shows "fst (fetchWithRetry demoEnv url retries trs) = Inr (js ''<html></html>'')"
proof -
  obtain k where "fst (fetchWithRetry demoEnv url retries trs)
      = httpGet demoEnv (trs @ retryRounds url k) url"
    using fetchWithRetry_rounds [of retries demoEnv url trs] by blast
  then show ?thesis
    using assms by (simp add: demoEnv_def)
qed

lemma demoEnv_atletismo_trace:
  "snd (fetchWithRetry demoEnv atletismoUrl maxRetries [])
     = [HttpGet atletismoUrl, Delay 2000, HttpGet atletismoUrl, Delay 2000,
        HttpGet atletismoUrl, Delay 2000, HttpGet atletismoUrl]"
  by code_simp

lemma SPORTS_sample:
  "sport_name (SPORTS ! 0) = js ''F'' @ [0xFA] @ js ''tbol''"
  "sportUrlOf (SPORTS ! 0) \<noteq> atletismoUrl"
  "sport_name (SPORTS ! 1) = js ''Atletismo''"
  "sportUrlOf (SPORTS ! 1) = atletismoUrl"
  "baseUrl @ urlPath (SPORTS ! 1) @ js ''/''
     = js ''https://clasico.com.do/juegos-nacionales-salesianos-2025/atletismo/''"
  "length SPORTS = 8"
  by (simp_all add: SPORTS_def sportUrlOf_def atletismoUrl_def baseUrl_def js_def)

theorem sport_fetch_failure_is_tolerated_witness:
  "fst (fetchWithRetry demoEnv (sportUrlOf (SPORTS ! 1)) maxRetries []) = Inl timeoutError \<and>
   scrapeSportPage demoEnv (SPORTS ! 1) [] =
     (JObj [(js ''sportInfo'',
             JObj [(js ''name'', JStr (js ''Atletismo'')),
                   (js ''url'', JStr (js ''https://clasico.com.do/juegos-nacionales-salesianos-2025/atletismo/'')),
                   (js ''error'', JStr (js ''timeout''))])],
      [HttpGet atletismoUrl, Delay 2000, HttpGet atletismoUrl, Delay 2000,
       HttpGet atletismoUrl, Delay 2000, HttpGet atletismoUrl]) \<and>
   (\<exists>summary es.
      fst (runScraper demoEnv []) = Inr summary \<and>
      getProp summary (js ''sports'') = JArr es \<and>
      length es = 8 \<and>
      es ! 0 = JObj [(js ''name'', JStr (js ''F'' @ [0xFA] @ js ''tbol'')),
                     (js ''resultsCount'', JNum 0),
                     (js ''matchesCount'', JNum 0),
                     (js ''hasStandings'', JBool False),
                     (js ''hasMedals'', JBool False),
                     (js ''error'', JStr (js ''element.find is not a function''))] \<and>
      es ! 1 = JObj [(js ''name'', JStr (js ''Atletismo'')),
                     (js ''resultsCount'', JNum 0),
                     (js ''matchesCount'', JNum 0),
                     (js ''hasStandings'', JBool False),
                     (js ''hasMedals'', JBool False),
                     (js ''error'', JStr (js ''timeout''))])"
proof -
  have mk: "\<forall>tr e. fsError demoEnv tr (Mkdir outputDir) = Some e \<longrightarrow> err_code e = js ''EEXIST''"
    by (simp add: demoEnv_def)
  have lg: "\<forall>tr text. fsError demoEnv tr (AppendFile logFile text) = None"
    by (simp add: demoEnv_def)
  note t = sport_fetch_failure_is_tolerated [of demoEnv "SPORTS ! 1" "[]" timeoutError "[]", OF mk lg]
  have f: "fst (fetchWithRetry demoEnv (sportUrlOf (SPORTS ! 1)) maxRetries trs) = Inl timeoutError" for trs
    by (simp only: SPORTS_sample demoEnv_fetch_atletismo)
  have g: "fst (fetchWithRetry demoEnv (sportUrlOf (SPORTS ! 0)) maxRetries trs) = Inr (js ''<html></html>'')" for trs
    by (rule demoEnv_fetch_other) (rule SPORTS_sample)
  have m: "err_message timeoutError = js ''timeout''"
    by (simp add: timeoutError_def)
  have p: "scrapeSportPage demoEnv (SPORTS ! 1) [] =
     (JObj [(js ''sportInfo'',
             JObj [(js ''name'', JStr (js ''Atletismo'')),
                   (js ''url'', JStr (js ''https://clasico.com.do/juegos-nacionales-salesianos-2025/atletismo/'')),
                   (js ''error'', JStr (js ''timeout''))])],
      [HttpGet atletismoUrl, Delay 2000, HttpGet atletismoUrl, Delay 2000,
       HttpGet atletismoUrl, Delay 2000, HttpGet atletismoUrl])"
    using t [THEN conjunct1, THEN mp, OF f]
    by (simp only: SPORTS_sample m demoEnv_atletismo_trace)
  obtain eventTitle lastUpdated messages where r:
      "length messages = length SPORTS"
      "fst (runScraper demoEnv []) =
         Inr (JObj [(js ''eventTitle'', eventTitle),
                    (js ''lastUpdated'', JStr lastUpdated),
                    (js ''sports'',
                     JArr (map2 (\<lambda>s message.
                              JObj [(js ''name'', JStr (sport_name s)),
                                    (js ''resultsCount'', JNum 0),
                                    (js ''matchesCount'', JNum 0),
                                    (js ''hasStandings'', JBool False),
                                    (js ''hasMedals'', JBool False),
                                    (js ''error'', JStr message)]) SPORTS messages))])"
      "\<forall>i < length SPORTS. \<exists>trs.
           prefix (snd (fetchWithRetry demoEnv (sportUrlOf (SPORTS ! i)) maxRetries trs))
                  (snd (runScraper demoEnv [])) \<and>
           messages ! i =
             (case fst (fetchWithRetry demoEnv (sportUrlOf (SPORTS ! i)) maxRetries trs) of
                Inl err \<Rightarrow> err_message err
              | Inr html \<Rightarrow> js ''element.find is not a function'')"
    using t [THEN conjunct2] by blast
  let ?F = "\<lambda>s message.
                              JObj [(js ''name'', JStr (sport_name s)),
                                    (js ''resultsCount'', JNum 0),
                                    (js ''matchesCount'', JNum 0),
                                    (js ''hasStandings'', JBool False),
                                    (js ''hasMedals'', JBool False),
                                    (js ''error'', JStr message)]"
  let ?es = "map2 ?F SPORTS messages"
  have l0: "(0::nat) < length SPORTS" and l1: "(1::nat) < length SPORTS"
    by (simp_all add: SPORTS_sample)
  obtain trs0 where "messages ! 0 =
             (case fst (fetchWithRetry demoEnv (sportUrlOf (SPORTS ! 0)) maxRetries trs0) of
                Inl err \<Rightarrow> err_message err
              | Inr html \<Rightarrow> js ''element.find is not a function'')"
    using r(3) [THEN spec, THEN mp, OF l0] by blast
  then have m0: "messages ! 0 = js ''element.find is not a function''"
    by (simp only: g sum.case)
  obtain trs1 where "messages ! 1 =
             (case fst (fetchWithRetry demoEnv (sportUrlOf (SPORTS ! 1)) maxRetries trs1) of
                Inl err \<Rightarrow> err_message err
              | Inr html \<Rightarrow> js ''element.find is not a function'')"
    using r(3) [THEN spec, THEN mp, OF l1] by blast
  then have m1: "messages ! 1 = js ''timeout''"
    by (simp only: f sum.case m)
  have len: "length ?es = 8"
    using r(1) by (simp add: SPORTS_sample)
  have n: "?es ! i = ?F (SPORTS ! i) (messages ! i)" if "i < length SPORTS" for i
    using that r(1) by simp
  have e0: "?es ! 0 = JObj [(js ''name'', JStr (js ''F'' @ [0xFA] @ js ''tbol'')),
                     (js ''resultsCount'', JNum 0),
                     (js ''matchesCount'', JNum 0),
                     (js ''hasStandings'', JBool False),
                     (js ''hasMedals'', JBool False),
                     (js ''error'', JStr (js ''element.find is not a function''))]"
    by (simp only: n [OF l0] m0 SPORTS_sample)
  have e1: "?es ! 1 = JObj [(js ''name'', JStr (js ''Atletismo'')),
                     (js ''resultsCount'', JNum 0),
                     (js ''matchesCount'', JNum 0),
                     (js ''hasStandings'', JBool False),
                     (js ''hasMedals'', JBool False),
                     (js ''error'', JStr (js ''timeout''))]"
    by (simp only: n [OF l1] m1 SPORTS_sample)
  have gp: "getProp (JObj [(js ''eventTitle'', eventTitle),
                    (js ''lastUpdated'', JStr lastUpdated),
                    (js ''sports'', JArr ?es)]) (js ''sports'') = JArr ?es"
    by (simp add: obj_get_def)
  have "\<exists>summary es.
      fst (runScraper demoEnv []) = Inr summary \<and>
      getProp summary (js ''sports'') = JArr es \<and>
      length es = 8 \<and>
      es ! 0 = JObj [(js ''name'', JStr (js ''F'' @ [0xFA] @ js ''tbol'')),
                     (js ''resultsCount'', JNum 0),
                     (js ''matchesCount'', JNum 0),
                     (js ''hasStandings'', JBool False),
                     (js ''hasMedals'', JBool False),
                     (js ''error'', JStr (js ''element.find is not a function''))] \<and>
      es ! 1 = JObj [(js ''name'', JStr (js ''Atletismo'')),
                     (js ''resultsCount'', JNum 0),
                     (js ''matchesCount'', JNum 0),
                     (js ''hasStandings'', JBool False),
                     (js ''hasMedals'', JBool False),
                     (js ''error'', JStr (js ''timeout''))]"
    using r(2) gp len e0 e1 by blast
  then show ?thesis
    using f [of "[]"] p by blast
qed

section \<open>Properties of the persisted records\<close>







section \<open>Properties of the acceptance tests\<close>







section \<open>Properties of the table titles\<close>

lemma showNat_nonempty: "showNat n \<noteq> []"
  by (subst showNat.simps) simp

lemma digit_unat: "d < 10 \<Longrightarrow> unat (of_nat (48 + d) :: 16 word) = 48 + d"
proof -
  assume d: "d < 10"
  have "unat (of_nat (48 + d) :: 16 word) = (48 + d) mod 2 ^ LENGTH(16)"
    by (rule unat_of_nat)
  also have "\<dots> = 48 + d" using d by simp
  finally show ?thesis .
qed

lemma digitsValue_showNat: "digitsValue (showNat n) = n"
proof (induction n rule: showNat.induct)
  case (1 n)
  show ?case
  proof (cases "n < 10")
    case True
    then show ?thesis
      by (subst showNat.simps) (simp add: digitsValue_def digit_unat del: of_nat_add)
  next
    case False
    then have ih: "digitsValue (showNat (n div 10)) = n div 10" using 1 by simp
    have "n mod 10 < 10" by simp
    then have u: "unat (of_nat (48 + n mod 10) :: 16 word) = 48 + n mod 10" by (rule digit_unat)
    have "digitsValue (showNat n) = 10 * digitsValue (showNat (n div 10)) + n mod 10"
      using False u by (subst showNat.simps) (simp add: digitsValue_def del: of_nat_add)
    then show ?thesis using ih by simp
  qed
qed

lemma set_indexed: "(i, x) \<in> set (indexed xs) \<longleftrightarrow> i < length xs \<and> xs ! i = x"
  by (auto simp: indexed_def in_set_enumerate_eq)


text \<open>
  C9 (as amended).  In the minimal scraper the title of a table is the trimmed text of the
  heading that immediately precedes it, or else the label ``Table N'' with \<open>N\<close> the decimal
  of the table's index plus one; it is never empty, and every persisted result table
  carries the title so computed for its position among the tables of the page.  On the
  main page of the enhanced scraper the title of a standings block is the first non-empty
  of the trimmed text of the preceding heading, the trimmed text of its nested caption or
  table-title elements, and the label ``Standings''; every persisted block carries the
  title so computed.  Neither search looks at the heading of a containing category block.
\<close>

theorem table_title_recovery:
  "ws_tableTitle doc i table =
     (if textTrim doc (sel_prev doc [table] ''h2, h3, h4'') \<noteq> []
      then textTrim doc (sel_prev doc [table] ''h2, h3, h4'')
      else js ''Table '' @ showNat (i + 1)) \<and>
   digitsValue (showNat (i + 1)) = i + 1 \<and>
   ws_tableTitle doc i table \<noteq> [] \<and>
   (\<forall>r \<in> set (ws_results doc). \<exists>k < length (root_select doc ''table'').
      getProp r (js ''title'') = JStr (ws_tableTitle doc k (root_select doc ''table'' ! k))) \<and>
   mainStandingTitle doc table =
     (if textTrim doc (sel_prev doc [table] ''h2, h3, h4'') \<noteq> []
      then textTrim doc (sel_prev doc [table] ''h2, h3, h4'')
      else if textTrim doc (sel_find doc [table] ''caption, .table-title'') \<noteq> []
      then textTrim doc (sel_find doc [table] ''caption, .table-title'')
      else js ''Standings'') \<and>
   (\<forall>s \<in> set (mainStandings doc).
      \<exists>el \<in> set (root_select doc ''.standings, .medal-tally, .results-summary, .leaderboard'').
        getProp s (js ''title'') = JStr (mainStandingTitle doc el))"
proof -
  have e: "ws_tableTitle doc i table =
     (if textTrim doc (sel_prev doc [table] ''h2, h3, h4'') \<noteq> []
      then textTrim doc (sel_prev doc [table] ''h2, h3, h4'')
      else js ''Table '' @ showNat (i + 1))"
    by (simp add: ws_tableTitle_def orElse_def)
  have ne: "ws_tableTitle doc i table \<noteq> []"
    unfolding e by (simp add: showNat_nonempty)
  have f: "\<forall>r \<in> set (ws_results doc). \<exists>k < length (root_select doc ''table'').
      getProp r (js ''title'') = JStr (ws_tableTitle doc k (root_select doc ''table'' ! k))"
  proof
    fix r assume "r \<in> set (ws_results doc)"
    then obtain it where it: "it \<in> set (indexed (root_select doc ''table''))"
        "ws_resultTable doc it = Some r"
      by (auto simp: ws_results_def set_collect)
    then have "fst it < length (root_select doc ''table'')"
        "root_select doc ''table'' ! fst it = snd it"
      using set_indexed [of "fst it" "snd it"] by simp_all
    moreover have "getProp r (js ''title'') = JStr (ws_tableTitle doc (fst it) (snd it))"
      using it(2) by (auto simp: ws_resultTable_def Let_def obj_get_def split: if_splits)
    ultimately show "\<exists>k < length (root_select doc ''table'').
      getProp r (js ''title'') = JStr (ws_tableTitle doc k (root_select doc ''table'' ! k))"
      by auto
  qed
  have m: "mainStandingTitle doc table =
     (if textTrim doc (sel_prev doc [table] ''h2, h3, h4'') \<noteq> []
      then textTrim doc (sel_prev doc [table] ''h2, h3, h4'')
      else if textTrim doc (sel_find doc [table] ''caption, .table-title'') \<noteq> []
      then textTrim doc (sel_find doc [table] ''caption, .table-title'')
      else js ''Standings'')"
    by (simp add: mainStandingTitle_def orElse_def)
  have s: "\<forall>s \<in> set (mainStandings doc).
      \<exists>el \<in> set (root_select doc ''.standings, .medal-tally, .results-summary, .leaderboard'').
        getProp s (js ''title'') = JStr (mainStandingTitle doc el)"
  proof
    fix s assume "s \<in> set (mainStandings doc)"
    then obtain el where el: "el \<in> set (root_select doc ''.standings, .medal-tally, .results-summary, .leaderboard'')"
        "mainStanding doc el = Some s"
      by (auto simp: mainStandings_def set_collect)
    have "getProp s (js ''title'') = JStr (mainStandingTitle doc el)"
      using el(2) by (auto simp: mainStanding_def Let_def obj_get_def split: if_splits)
    then show "\<exists>el \<in> set (root_select doc ''.standings, .medal-tally, .results-summary, .leaderboard'').
        getProp s (js ''title'') = JStr (mainStandingTitle doc el)"
      using el(1) by blast
  qed
  show ?thesis
    using e ne f m s digitsValue_showNat [of "i + 1"] by blast
qed

lemma pageDoc_results:
  "ws_results pageDoc =
     [JObj [(js ''title'', JStr (js ''Table 1'')), (js ''data'', JArr [JArr [JStr (js ''x'')]])],
      JObj [(js ''title'', JStr (js ''Posiciones'')), (js ''data'', JArr [JArr [JStr (js ''y'')]])],
      JObj [(js ''title'', JStr (js ''Table 3'')), (js ''data'', JArr [JArr [JStr (js ''z'')]])]]"
  by code_simp

theorem table_title_recovery_witness:
  "textTrim pageDoc (sel_prev pageDoc [50] ''h2, h3, h4'') = [] \<and>
   ws_tableTitle pageDoc 0 50 = js ''Table 1'' \<and>
   textTrim pageDoc (sel_prev pageDoc [51] ''h2, h3, h4'') = js ''Posiciones'' \<and>
   ws_tableTitle pageDoc 1 51 = js ''Posiciones'' \<and>
   JObj [(js ''title'', JStr (js ''Table 3'')), (js ''data'', JArr [JArr [JStr (js ''z'')]])]
     \<in> set (ws_results pageDoc) \<and>
   mainStandingTitle mainDoc 30 = js ''Medallero'' \<and>
   mainStandingTitle mainDoc 40 = js ''Standings''"
proof -
  have h: "textTrim pageDoc (sel_prev pageDoc [50] ''h2, h3, h4'') = []"
      "textTrim pageDoc (sel_prev pageDoc [51] ''h2, h3, h4'') = js ''Posiciones''"
    by code_simp+
  have s: "showNat (0 + 1) = js ''1''" by code_simp
  have a: "ws_tableTitle pageDoc 0 50 = js ''Table 1''"
    using table_title_recovery [of pageDoc 0 50] h s by (simp add: js_def)
  have b: "ws_tableTitle pageDoc 1 51 = js ''Posiciones''"
    using table_title_recovery [of pageDoc 1 51] h by (simp add: js_def)
  have c: "textTrim mainDoc (sel_prev mainDoc [30] ''h2, h3, h4'') = []"
      "textTrim mainDoc (sel_find mainDoc [30] ''caption, .table-title'') = js ''Medallero''"
      "textTrim mainDoc (sel_prev mainDoc [40] ''h2, h3, h4'') = []"
      "textTrim mainDoc (sel_find mainDoc [40] ''caption, .table-title'') = []"
    by code_simp+
  have d: "mainStandingTitle mainDoc 30 = js ''Medallero''"
    using table_title_recovery [of mainDoc 0 30] c by (simp add: js_def)
  have e: "mainStandingTitle mainDoc 40 = js ''Standings''"
    using table_title_recovery [of mainDoc 0 40] c by (simp add: js_def)
  show ?thesis
    using h a b d e by (simp add: pageDoc_results)
qed

text \<open>
  Stated as a search through heading, caption, category heading and ``Table N'', the
  title recovery fails.  The first table of the sample sport page has neither heading nor
  caption and lies in the block headed ``Grupo A'': the claimed search gives ``Grupo A'',
  the minimal scraper ``Table 1''.  The third table holds the caption ``Serie B'': the
  claimed search gives it, the minimal scraper ``Table 3''.  The second standings block
  of the sample main page has neither heading nor caption: the claimed search gives
  ``Table 2'', the enhanced scraper ``Standings''.
\<close>

theorem table_title_order_counterexample:
  "claimedTableTitle pageDoc 0 50 = js ''Grupo A'' \<and>
   ws_tableTitle pageDoc 0 50 = js ''Table 1'' \<and>
   claimedTableTitle pageDoc 2 56 = js ''Serie B'' \<and>
   ws_tableTitle pageDoc 2 56 = js ''Table 3'' \<and>
   map (\<lambda>r. getProp r (js ''title'')) (ws_results pageDoc)
     = [JStr (js ''Table 1''), JStr (js ''Posiciones''), JStr (js ''Table 3'')] \<and>
   claimedTableTitle mainDoc 1 40 = js ''Table 2'' \<and>
   mainStandingTitle mainDoc 40 = js ''Standings'' \<and>
   map (\<lambda>s. getProp s (js ''title'')) (mainStandings mainDoc)
     = [JStr (js ''Medallero''), JStr (js ''Standings'')]"
  by code_simp

section \<open>Properties of the CSV encoding\<close>

lemma includes_single: "includes_str s [c] \<longleftrightarrow> c \<in> set s"
proof
  assume "includes_str s [c]"
  then show "c \<in> set s" by (auto simp: includes_str_def sublist_def)
next
  assume "c \<in> set s"
  then obtain ps ss where "s = ps @ c # ss" by (auto simp: in_set_conv_decomp)
  then have "s = ps @ [c] @ ss" by simp
  then show "includes_str s [c]" unfolding includes_str_def sublist_def by blast
qed

lemma formatCSVValue_alt:
  "formatCSVValue S v =
     (if needsQuote (cellText S v) then [34] @ replaceAll 34 [34, 34] (cellText S v) @ [34]
      else cellText S v)"
  by (cases v) (simp_all add: formatCSVValue_def needsQuote_def includes_single Let_def)

lemma replaceAll_Nil [simp]: "replaceAll x r [] = []"
  by (simp add: replaceAll_def)

lemma replaceAll_Cons [simp]:
  "replaceAll x r (c # s) = (if c = x then r else [c]) @ replaceAll x r s"
  by (simp add: replaceAll_def)

lemma replaceAll_append [simp]:
  "replaceAll x r (s @ t) = replaceAll x r s @ replaceAll x r t"
  by (simp add: replaceAll_def)

lemma undouble_replaceAll: "undouble (replaceAll 34 [34, 34] s) = s"
proof (induction s)
  case Nil
  then show ?case by simp
next
  case (Cons c s)
  define t where "t = replaceAll 34 [34, 34] s"
  have ih: "undouble t = s" using Cons by (simp add: t_def)
  show ?case
  proof (cases "c = 34")
    case True
    then show ?thesis using ih by (simp add: t_def [symmetric])
  next
    case False
    then have "undouble (c # t) = c # undouble t"
      by (cases t) simp_all
    then show ?thesis using False ih by (simp add: t_def [symmetric])
  qed
qed

lemma csvDecodeCell_formatCSVValue: "csvDecodeCell (formatCSVValue S v) = cellText S v"
proof (cases "needsQuote (cellText S v)")
  case True
  then show ?thesis
    by (simp add: formatCSVValue_alt csvDecodeCell_def butlast_append undouble_replaceAll)
next
  case False
  then have "cellText S v = [] \<or> hd (cellText S v) \<noteq> 34"
    by (cases "cellText S v") (auto simp: needsQuote_def)
  then show ?thesis using False
    by (cases "cellText S v") (auto simp: formatCSVValue_alt csvDecodeCell_def)
qed

lemma csvParse_unquoted_run:
  "\<not> needsQuote t \<Longrightarrow> csvParse Unquoted f r (t @ rest) = csvParse Unquoted (rev t @ f) r rest"
proof (induction t arbitrary: f)
  case Nil
  then show ?case by simp
next
  case (Cons c t)
  then have "c \<noteq> 44" "c \<noteq> 10" "\<not> needsQuote t"
    by (auto simp: needsQuote_def)
  then show ?case using Cons.IH [of "c # f"] by simp
qed

lemma csvParse_quoted_run:
  "csvParse Quoted f r (replaceAll 34 [34, 34] t @ 34 # rest)
     = csvParse QuoteInQuoted (rev t @ f) r rest"
proof (induction t arbitrary: f)
  case Nil
  then show ?case by simp
next
  case (Cons c t)
  show ?case
  proof (cases "c = 34")
    case True
    then show ?thesis using Cons [of "34 # f"] by simp
  next
    case False
    then show ?thesis using Cons [of "c # f"] by simp
  qed
qed

text \<open>One encoded cell followed by a comma or by a line feed.\<close>

lemma csvParse_cell_comma:
  "csvParse FieldStart [] r (formatCSVValue S v @ 44 # rest)
     = csvParse FieldStart [] (cellText S v # r) rest"
proof (cases "needsQuote (cellText S v)")
  case True
  then show ?thesis
    by (simp add: formatCSVValue_alt csvParse_quoted_run)
next
  case False
  show ?thesis
  proof (cases "cellText S v")
    case Nil
    then show ?thesis using False by (simp add: formatCSVValue_alt)
  next
    case (Cons c t)
    then have c: "c \<noteq> 34" "c \<noteq> 44" "c \<noteq> 10" and t: "\<not> needsQuote t"
      using False by (auto simp: needsQuote_def)
    show ?thesis
      using False Cons c csvParse_unquoted_run [OF t, of "[c]" r "44 # rest"]
      by (simp add: formatCSVValue_alt)
  qed
qed

lemma csvParse_cell_newline:
  "csvParse FieldStart [] r (formatCSVValue S v @ 10 # rest)
     = rev (cellText S v # r) # csvParse FieldStart [] [] rest"
proof (cases "needsQuote (cellText S v)")
  case True
  then show ?thesis
    by (simp add: formatCSVValue_alt csvParse_quoted_run)
next
  case False
  show ?thesis
  proof (cases "cellText S v")
    case Nil
    then show ?thesis using False by (simp add: formatCSVValue_alt)
  next
    case (Cons c t)
    then have c: "c \<noteq> 34" "c \<noteq> 44" "c \<noteq> 10" and t: "\<not> needsQuote t"
      using False by (auto simp: needsQuote_def)
    show ?thesis
      using False Cons c csvParse_unquoted_run [OF t, of "[c]" r "10 # rest"]
      by (simp add: formatCSVValue_alt)
  qed
qed

lemma csvParse_row:
  "cells \<noteq> [] \<Longrightarrow>
   csvParse FieldStart [] r (join [44] (map (formatCSVValue S) cells) @ 10 # rest)
     = rev (rev (map (cellText S) cells) @ r) # csvParse FieldStart [] [] rest"
proof (induction cells arbitrary: r)
  case Nil
  then show ?case by simp
next
  case (Cons v cells)
  show ?case
  proof (cases cells)
    case Nil
    then show ?thesis by (simp add: csvParse_cell_newline)
  next
    case (Cons w ws)
    then have "csvParse FieldStart [] (cellText S v # r)
                 (join [44] (map (formatCSVValue S) cells) @ 10 # rest)
       = rev (rev (map (cellText S) cells) @ cellText S v # r) # csvParse FieldStart [] [] rest"
      using Cons.IH [of "cellText S v # r"] by simp
    then show ?thesis using Cons by (simp add: csvParse_cell_comma)
  qed
qed

text \<open>The text of a sequence of array rows, and reading it back.\<close>

lemma csvRows_arrays:
  "csvRows S headers csv (map JArr rows)
     = Inr (csv @ concat (map (\<lambda>row. join [44] (map (formatCSVValue S) row) @ [10]) rows))"
  by (induction rows arbitrary: csv) simp_all

lemma csvParse_rows:
  "\<forall>row \<in> set rows. row \<noteq> [] \<Longrightarrow>
   csvParse FieldStart [] [] (concat (map (\<lambda>row. join [44] (map (formatCSVValue S) row) @ [10]) rows))
     = map (map (cellText S)) rows"
proof (induction rows)
  case Nil
  then show ?case by simp
next
  case (Cons row rows)
  then show ?case using csvParse_row [of row "[]" S] by simp
qed

lemma convertToCSV_arrays:
  "convertToCSV S (JArr (map JArr rows)) None
     = Inr (concat (map (\<lambda>row. join [44] (map (formatCSVValue S) row) @ [10]) rows))"
proof -
  have "convertToCSV S (JArr (map JArr rows)) None
          = (if rows = [] then Inr [] else csvRows S None [] (map JArr rows))"
    by (simp add: convertToCSV_def)
  then show ?thesis
    by (simp only: csvRows_arrays) simp
qed

text \<open>Object rows: once headers are known every row is written by header.\<close>

lemma csvRows_objects:
  "csvRows S (Some hs) csv (map JObj objs)
     = Inr (csv @ concat (map (\<lambda>ob. join [44] (map (\<lambda>key. formatCSVValue S (obj_get ob key)) hs) @ [10]) objs))"
  by (induction objs arbitrary: csv) simp_all

lemma convertToCSV_objects:
  "convertToCSV S (JArr (map JObj (ob # objs))) None
     = Inr (join [44] (obj_keys ob) @ [10]
            @ concat (map (\<lambda>x. join [44] (map (\<lambda>key. formatCSVValue S (obj_get x key)) (obj_keys ob)) @ [10])
                        (ob # objs)))"
  "convertToCSV S (JArr (map JObj (ob # objs))) (Some (obj_keys ob))
     = convertToCSV S (JArr (map JObj (ob # objs))) None"
proof -
  have r: "csvRows S (Some (obj_keys ob)) csv (JObj ob # map JObj objs)
     = Inr (csv @ concat (map (\<lambda>x. join [44] (map (\<lambda>key. formatCSVValue S (obj_get x key)) (obj_keys ob)) @ [10])
                        (ob # objs)))" for csv
    using csvRows_objects [of S "obj_keys ob" csv "ob # objs"] by (simp only: list.map)
  have n: "csvRows S None [] (JObj ob # map JObj objs)
     = csvRows S (Some (obj_keys ob)) (join [44] (obj_keys ob) @ [10]) (JObj ob # map JObj objs)"
    by (simp add: Let_def)
  show "convertToCSV S (JArr (map JObj (ob # objs))) None
     = Inr (join [44] (obj_keys ob) @ [10]
            @ concat (map (\<lambda>x. join [44] (map (\<lambda>key. formatCSVValue S (obj_get x key)) (obj_keys ob)) @ [10])
                        (ob # objs)))"
    unfolding convertToCSV_def by (simp add: n r del: csvRows.simps)
  show "convertToCSV S (JArr (map JObj (ob # objs))) (Some (obj_keys ob))
     = convertToCSV S (JArr (map JObj (ob # objs))) None"
    unfolding convertToCSV_def by (simp add: n del: csvRows.simps)
qed


text \<open>
  C7 (as amended).  A cell is written as its text, in quotes exactly when the text holds a
  comma, a double quote or a line feed, and then with every double quote inside doubled.
  Decoding the written cell gives the text back: for a string cell that is the string
  itself, for a boolean its name, for a number, an array or an object what the engine's
  conversion gives.  The cells of \<^verbatim>\<open>null\<close> and \<^verbatim>\<open>undefined\<close> are written empty, as
  the empty string is.  Reading a whole document of non-empty array rows returns every
  row with every cell text unchanged.  Without headers, the first object row met makes its
  keys the headers and restarts the text with the header line; when all rows are objects
  the result is exactly what passing the first row's keys as headers gives.
\<close>

theorem toCSV_quoting_round_trip:
  "formatCSVValue S v =
     (if needsQuote (cellText S v) then [34] @ replaceAll 34 [34, 34] (cellText S v) @ [34]
      else cellText S v) \<and>
   needsQuote (cellText S v) = (44 \<in> set (cellText S v) \<or> 34 \<in> set (cellText S v) \<or> 10 \<in> set (cellText S v)) \<and>
   csvDecodeCell (formatCSVValue S v) = cellText S v \<and>
   csvDecodeCell (formatCSVValue S (JStr s)) = s \<and>
   csvDecodeCell (formatCSVValue S (JBool True)) = js ''true'' \<and>
   csvDecodeCell (formatCSVValue S (JBool False)) = js ''false'' \<and>
   csvDecodeCell (formatCSVValue S (JNum n)) = S (JNum n) \<and>
   csvDecodeCell (formatCSVValue S (JArr vs)) = S (JArr vs) \<and>
   csvDecodeCell (formatCSVValue S (JObj kvs)) = S (JObj kvs) \<and>
   formatCSVValue S JNull = [] \<and>
   formatCSVValue S JUndefined = [] \<and>
   formatCSVValue S (JStr []) = [] \<and>
   formatCSVValue S (JStr (js ''He said, \"hi\"'')) = js ''\"He said, \"\"hi\"\"\"'' \<and>
   ((\<forall>row \<in> set rows. row \<noteq> []) \<longrightarrow>
      (\<exists>out. convertToCSV S (JArr (map JArr rows)) None = Inr out \<and>
              csvParse FieldStart [] [] out = map (map (cellText S)) rows)) \<and>
   convertToCSV S (JArr (map JObj (ob # objs))) None
     = Inr (join [44] (obj_keys ob) @ [10]
            @ concat (map (\<lambda>x. join [44] (map (\<lambda>key. formatCSVValue S (obj_get x key)) (obj_keys ob)) @ [10])
                        (ob # objs))) \<and>
   convertToCSV S (JArr (map JObj (ob # objs))) (Some (obj_keys ob))
     = convertToCSV S (JArr (map JObj (ob # objs))) None \<and>
   csvRows S None csv (JObj ob # more_rows)
     = csvRows S (Some (obj_keys ob)) (join [44] (obj_keys ob) @ [10]) (JObj ob # more_rows)"
proof -
  have inf: "csvRows S None csv (JObj ob # more_rows)
     = csvRows S (Some (obj_keys ob)) (join [44] (obj_keys ob) @ [10]) (JObj ob # more_rows)"
    by (simp add: Let_def)
  have ex: "formatCSVValue S (JStr (js ''He said, \"hi\"'')) = js ''\"He said, \"\"hi\"\"\"''"
    by (simp add: formatCSVValue_alt needsQuote_def js_def)
  have rt: "(\<forall>row \<in> set rows. row \<noteq> []) \<longrightarrow>
      (\<exists>out. convertToCSV S (JArr (map JArr rows)) None = Inr out \<and>
              csvParse FieldStart [] [] out = map (map (cellText S)) rows)"
    by (simp add: convertToCSV_arrays csvParse_rows)
  have kinds:
      "csvDecodeCell (formatCSVValue S (JStr s)) = s"
      "csvDecodeCell (formatCSVValue S (JBool True)) = js ''true''"
      "csvDecodeCell (formatCSVValue S (JBool False)) = js ''false''"
      "csvDecodeCell (formatCSVValue S (JNum n)) = S (JNum n)"
      "csvDecodeCell (formatCSVValue S (JArr vs)) = S (JArr vs)"
      "csvDecodeCell (formatCSVValue S (JObj kvs)) = S (JObj kvs)"
    by (simp_all add: csvDecodeCell_formatCSVValue)
  have empty: "formatCSVValue S JNull = []" "formatCSVValue S JUndefined = []"
      "formatCSVValue S (JStr []) = []"
    by (simp_all add: formatCSVValue_alt needsQuote_def)
  have nq: "needsQuote (cellText S v) = (44 \<in> set (cellText S v) \<or> 34 \<in> set (cellText S v) \<or> 10 \<in> set (cellText S v))"
    by (simp add: needsQuote_def)
  show ?thesis
    using formatCSVValue_alt [of S v] nq csvDecodeCell_formatCSVValue [of S v] kinds empty ex rt
      convertToCSV_objects [of S ob objs] inf
    by blast
qed

theorem toCSV_quoting_round_trip_witness:
  "convertToCSV demoText (JArr (map JArr csvRowsDemo)) None
     = Inr (js ''\"He said, \"\"hi\"\"\",\"a'' @ [10] @ js ''b\"'' @ [10] @ js '',\"x,y\"'' @ [10]
            @ js ''42,true'' @ [10]) \<and>
   csvParse FieldStart [] []
       (js ''\"He said, \"\"hi\"\"\",\"a'' @ [10] @ js ''b\"'' @ [10] @ js '',\"x,y\"'' @ [10]
        @ js ''42,true'' @ [10])
     = [[js ''He said, \"hi\"'', js ''a'' @ [10] @ js ''b''], [[], js ''x,y''], [js ''42'', js ''true'']]"
proof -
  have ne: "\<forall>row \<in> set csvRowsDemo. row \<noteq> []"
    by (simp add: csvRowsDemo_def)
  have enc: "convertToCSV demoText (JArr (map JArr csvRowsDemo)) None
     = Inr (js ''\"He said, \"\"hi\"\"\",\"a'' @ [10] @ js ''b\"'' @ [10] @ js '',\"x,y\"'' @ [10]
            @ js ''42,true'' @ [10])"
    by code_simp
  have cts: "map (map (cellText demoText)) csvRowsDemo
     = [[js ''He said, \"hi\"'', js ''a'' @ [10] @ js ''b''], [[], js ''x,y''], [js ''42'', js ''true'']]"
    by code_simp
  obtain out where t: "convertToCSV demoText (JArr (map JArr csvRowsDemo)) None = Inr out"
      "csvParse FieldStart [] [] out = map (map (cellText demoText)) csvRowsDemo"
    using toCSV_quoting_round_trip [of demoText JNull "[]" 0 "[]" "[]" csvRowsDemo "[]" "[]" "[]" "[]"] ne by blast
  have "out = js ''\"He said, \"\"hi\"\"\",\"a'' @ [10] @ js ''b\"'' @ [10] @ js '',\"x,y\"'' @ [10]
            @ js ''42,true'' @ [10]"
    using t(1) enc by simp
  then show ?thesis
    using enc t(2) cts by simp
qed

text \<open>
  Stated as ``decoding reproduces the original value, for every cell value'', the round
  trip fails: the cells of \<^verbatim>\<open>null\<close>, of \<^verbatim>\<open>undefined\<close> and of the empty string are
  written alike, and so are the cell of the number 42 and that of the string ``42'', so
  the value cannot be told from the written cell.
\<close>

theorem csv_cells_collide_counterexample:
  "formatCSVValue demoText JNull = formatCSVValue demoText (JStr []) \<and>
   formatCSVValue demoText JUndefined = formatCSVValue demoText (JStr []) \<and>
   csvDecodeCell (formatCSVValue demoText JNull) = [] \<and>
   formatCSVValue demoText (JNum 42) = formatCSVValue demoText (JStr (js ''42'')) \<and>
   csvDecodeCell (formatCSVValue demoText (JNum 42)) = js ''42''"
  by code_simp

section \<open>Properties of the HTML escaping\<close>

lemma replaceAll_concat_map:
  "replaceAll x r (concat (map g s)) = concat (map (\<lambda>c. replaceAll x r (g c)) s)"
  by (induction s) simp_all

lemma replaceAll_as_map: "replaceAll x r s = concat (map (\<lambda>c. if c = x then r else [c]) s)"
  by (simp add: replaceAll_def)

lemma escape_one:
  "replaceAll 39 (js ''&#039;'') (replaceAll 34 (js ''&quot;'') (replaceAll 62 (js ''&gt;'')
     (replaceAll 60 (js ''&lt;'') (if c = 38 then js ''&amp;'' else [c])))) = htmlEntity c"
  by (simp add: htmlEntity_def js_def)

lemma formatHTMLValue_alt:
  "formatHTMLValue S v = concat (map htmlEntity (cellText S v))"
proof (cases "v = JNull \<or> v = JUndefined")
  case True
  then show ?thesis by (auto simp: formatHTMLValue_def)
next
  case False
  let ?s = "stringValueOf S v"
  have "replaceAll 38 (js ''&amp;'') ?s = concat (map (\<lambda>c. if c = 38 then js ''&amp;'' else [c]) ?s)"
    by (rule replaceAll_as_map)
  then have "formatHTMLValue S v = concat (map htmlEntity ?s)"
    using False by (simp only: formatHTMLValue_def replaceAll_concat_map escape_one if_False)
  moreover have "cellText S v = ?s" using False by (cases v) simp_all
  ultimately show ?thesis by simp
qed

lemma htmlEntity_no_markup:
  "60 \<notin> set (htmlEntity c) \<and> 62 \<notin> set (htmlEntity c) \<and>
   34 \<notin> set (htmlEntity c) \<and> 39 \<notin> set (htmlEntity c)"
  by (simp add: htmlEntity_def js_def)

lemma formatHTMLValue_no_markup:
  "60 \<notin> set (formatHTMLValue S v) \<and> 62 \<notin> set (formatHTMLValue S v) \<and>
   34 \<notin> set (formatHTMLValue S v) \<and> 39 \<notin> set (formatHTMLValue S v)"
  using htmlEntity_no_markup by (auto simp: formatHTMLValue_alt)

lemma htmlDecode_entity: "htmlDecode (htmlEntity c @ rest) = c # htmlDecode rest"
proof -
  consider "c = 38" | "c = 60" | "c = 62" | "c = 34" | "c = 39"
    | "c \<noteq> 38" "c \<noteq> 60" "c \<noteq> 62" "c \<noteq> 34" "c \<noteq> 39"
    by blast
  then show ?thesis
  proof cases
    case 6
    then have "htmlEntity c @ rest = c # rest" by (simp add: htmlEntity_def)
    moreover have "htmlDecode (c # rest) = c # htmlDecode rest"
      using 6 by (subst htmlDecode.simps) (simp add: js_def)
    ultimately show ?thesis by simp
  qed (subst htmlDecode.simps, simp add: htmlEntity_def js_def)+
qed

lemma htmlDecode_escaped: "htmlDecode (concat (map htmlEntity s)) = s"
proof (induction s)
  case Nil
  then show ?case by (subst htmlDecode.simps) simp
next
  case (Cons c s)
  then show ?case by (simp add: htmlDecode_entity)
qed

text \<open>The rows of a table: every cell goes through \<open>formatHTMLValue\<close>.\<close>

lemma htmlRows_arrays:
  "htmlRows S headers html (map JArr rows)
     = Inr (html @ concat (map (\<lambda>row. js ''<tr>''
                @ concat (map (\<lambda>cell. td (formatHTMLValue S cell)) row) @ js ''</tr>'') rows))"
  by (induction rows arbitrary: html) simp_all

lemma htmlRows_objects:
  "htmlRows S (Some hs) html (map JObj objs)
     = Inr (html @ concat (map (\<lambda>ob. js ''<tr>''
                @ concat (map (\<lambda>key. td (formatHTMLValue S (obj_get ob key))) hs) @ js ''</tr>'') objs))"
  by (induction objs arbitrary: html) simp_all

lemma convertToHTMLTable_arrays:
  assumes "rows \<noteq> []"
  shows "convertToHTMLTable S (JArr (map JArr rows)) title1 None
     = Inr (tableOpening title1 @ js ''<tbody>''
            @ concat (map (\<lambda>row. js ''<tr>''
                @ concat (map (\<lambda>cell. td (formatHTMLValue S cell)) row) @ js ''</tr>'') rows)
            @ js ''</tbody></table></div>'')"
proof -
  obtain row rest where r: "rows = row # rest" using assms by (cases rows) auto
  have h: "hd (map JArr rows) = JArr row" by (simp add: r)
  have n: "length (map JArr rows) \<noteq> 0" using assms by simp
  show ?thesis
    unfolding convertToHTMLTable_def
    by (simp only: jsval.case n if_False h isPlainObjectOrNull.simps Let_def htmlRows_arrays
          simp_thms sum.case option.case) simp
qed

lemma convertToHTMLTable_objects:
  assumes "objs \<noteq> []"
  shows "convertToHTMLTable S (JArr (map JObj objs)) title1 (Some hs)
     = Inr (tableOpening title1 @ theadOf hs @ js ''<tbody>''
            @ concat (map (\<lambda>ob. js ''<tr>''
                @ concat (map (\<lambda>key. td (formatHTMLValue S (obj_get ob key))) hs) @ js ''</tr>'') objs)
            @ js ''</tbody></table></div>'')"
proof -
  have n: "length (map JObj objs) \<noteq> 0" using assms by simp
  show ?thesis
    unfolding convertToHTMLTable_def
    by (simp only: jsval.case n if_False Let_def htmlRows_objects
          simp_thms sum.case option.case option.distinct) simp
qed

text \<open>
  C8.  The text written for a cell is the cell's text with each of the ampersand, the two
  angle brackets, the double quote and the single quote replaced by its entity, in one
  pass (an ampersand produced by the escaping is not escaped again).  It therefore holds no
  angle bracket and no quote, and decoding the entities gives the cell's text back; the
  cell \<^verbatim>\<open><b>x</b>\<close> is written \<^verbatim>\<open>&lt;b&gt;x&lt;/b&gt;\<close>.  In a table of array
  rows, and in a table of object rows with headers, every cell is written this way
  between \<^verbatim>\<open><td>\<close> and \<^verbatim>\<open></td>\<close>.
\<close>

theorem toHTMLTable_escapes_cells:
  "formatHTMLValue S v = concat (map htmlEntity (cellText S v)) \<and>
   60 \<notin> set (formatHTMLValue S v) \<and> 62 \<notin> set (formatHTMLValue S v) \<and>
   34 \<notin> set (formatHTMLValue S v) \<and> 39 \<notin> set (formatHTMLValue S v) \<and>
   htmlDecode (formatHTMLValue S v) = cellText S v \<and>
   formatHTMLValue S (JStr (js ''<b>x</b>'')) = js ''&lt;b&gt;x&lt;/b&gt;'' \<and>
   (rows \<noteq> [] \<longrightarrow>
      convertToHTMLTable S (JArr (map JArr rows)) title1 None
        = Inr (tableOpening title1 @ js ''<tbody>''
               @ concat (map (\<lambda>row. js ''<tr>''
                   @ concat (map (\<lambda>cell. td (formatHTMLValue S cell)) row) @ js ''</tr>'') rows)
               @ js ''</tbody></table></div>'')) \<and>
   (objs \<noteq> [] \<longrightarrow>
      convertToHTMLTable S (JArr (map JObj objs)) title1 (Some hs)
        = Inr (tableOpening title1 @ theadOf hs @ js ''<tbody>''
               @ concat (map (\<lambda>ob. js ''<tr>''
                   @ concat (map (\<lambda>key. td (formatHTMLValue S (obj_get ob key))) hs) @ js ''</tr>'') objs)
               @ js ''</tbody></table></div>''))"
proof -
  have dec: "htmlDecode (formatHTMLValue S v) = cellText S v"
    by (simp add: formatHTMLValue_alt htmlDecode_escaped)
  have ex: "formatHTMLValue S (JStr (js ''<b>x</b>'')) = js ''&lt;b&gt;x&lt;/b&gt;''"
    by (simp add: formatHTMLValue_alt htmlEntity_def js_def)
  show ?thesis
    using formatHTMLValue_alt [of S v] formatHTMLValue_no_markup [of S v] dec ex
      convertToHTMLTable_arrays [of rows S title1] convertToHTMLTable_objects [of objs S title1 hs]
    by blast
qed

theorem toHTMLTable_escapes_cells_witness:
  "htmlRowsDemo \<noteq> [] \<and>
   convertToHTMLTable (\<lambda>v. []) (JArr (map JArr htmlRowsDemo)) (js ''T'') None
     = Inr (tableOpening (js ''T'')
            @ js ''<tbody><tr><td>&lt;b&gt;x&lt;/b&gt;</td></tr></tbody></table></div>'')"
proof -
  have ne: "htmlRowsDemo \<noteq> []" by (simp add: htmlRowsDemo_def)
  have "convertToHTMLTable (\<lambda>v. []) (JArr (map JArr htmlRowsDemo)) (js ''T'') None
      = Inr (tableOpening (js ''T'') @ js ''<tbody>''
               @ concat (map (\<lambda>row. js ''<tr>''
                   @ concat (map (\<lambda>cell. td (formatHTMLValue (\<lambda>v. []) cell)) row) @ js ''</tr>'') htmlRowsDemo)
               @ js ''</tbody></table></div>'')"
    using toHTMLTable_escapes_cells [of "\<lambda>v. []" JNull htmlRowsDemo "js ''T''" "[]" "[]"] ne by blast
  moreover have "formatHTMLValue (\<lambda>v. []) (JStr (js ''<b>x</b>'')) = js ''&lt;b&gt;x&lt;/b&gt;''"
    using toHTMLTable_escapes_cells [of "\<lambda>v. []" JNull] by blast
  ultimately show ?thesis
    using ne by (simp add: htmlRowsDemo_def td_def) (simp add: js_def)
qed


end
